theory Spec2Isabelle
  imports Complex_Main "HOL-Library.AList"
begin

section \<open>Python values and errors\<close>

text \<open>
  The notebooks are Python. Every exception the modelled code can raise is a value
  of \<open>error\<close>; a function that can raise returns \<open>error + 'a\<close>, with \<open>Inl\<close> the
  exception. Floating-point numbers are modelled as exact reals: rounding is not
  represented, comparisons and the arithmetic of counts are.
\<close>

datatype error = ValueError | KeyError | IndexError | ZeroDivisionError | TypeError

definition bind_err :: "error + 'a \<Rightarrow> ('a \<Rightarrow> error + 'b) \<Rightarrow> error + 'b" where
  "bind_err m f = (case m of Inl e \<Rightarrow> Inl e | Inr x \<Rightarrow> f x)"

text \<open>Running a function over a list stops at the first exception.\<close>

fun map_err :: "('a \<Rightarrow> error + 'b) \<Rightarrow> 'a list \<Rightarrow> error + 'b list" where
  "map_err f [] = Inr []"
| "map_err f (x # xs) =
     (case f x of
        Inl e \<Rightarrow> Inl e
      | Inr y \<Rightarrow> (case map_err f xs of Inl e \<Rightarrow> Inl e | Inr ys \<Rightarrow> Inr (y # ys)))"

text \<open>Python's true division of two ints: \<open>a / b\<close> raises on \<open>b = 0\<close>.\<close>

definition py_truediv :: "nat \<Rightarrow> nat \<Rightarrow> error + real" where
  "py_truediv a b = (if b = 0 then Inl ZeroDivisionError else Inr (real a / real b))"

section \<open>numpy arrays\<close>

text \<open>
  An \<open>ndarray\<close> is its shape and its elements in row-major (C) order. A real numpy
  array always satisfies \<open>array_ok\<close>.
\<close>

record 'a ndarray =
  shape :: "nat list"
  items :: "'a list"

definition array_ok :: "'a ndarray \<Rightarrow> bool" where
  "array_ok a = (length (items a) = prod_list (shape a))"

definition ndim :: "'a ndarray \<Rightarrow> nat" where
  "ndim a = length (shape a)"

definition np_size :: "'a ndarray \<Rightarrow> nat" where
  "np_size a = prod_list (shape a)"

definition count_nonzero :: "real ndarray \<Rightarrow> nat" where
  "count_nonzero a = length (filter (\<lambda>x. x \<noteq> 0) (items a))"


text \<open>\<open>a.reshape(s)\<close>: the elements are kept, the element count has to agree.\<close>

definition np_reshape :: "'a ndarray \<Rightarrow> nat list \<Rightarrow> error + 'a ndarray" where
  "np_reshape a s =
     (if prod_list s = np_size a then Inr \<lparr>shape = s, items = items a\<rparr> else Inl ValueError)"

text \<open>\<open>a[..., np.newaxis]\<close> and \<open>a[:, np.newaxis]\<close> on a 1-D array: a trailing axis of length 1.\<close>

definition newaxis_last :: "'a ndarray \<Rightarrow> 'a ndarray" where
  "newaxis_last a = \<lparr>shape = shape a @ [1], items = items a\<rparr>"

text \<open>
  Iterating an array walks its first axis: \<open>subarrays a\<close> are the \<open>shape a ! 0\<close> slices,
  each of shape \<open>tl (shape a)\<close>. A 0-d array cannot be iterated.
\<close>

fun chunks :: "nat \<Rightarrow> nat \<Rightarrow> 'a list \<Rightarrow> 'a list list" where
  "chunks 0 n xs = []"
| "chunks (Suc t) n xs = take n xs # chunks t n (drop n xs)"

definition subarrays :: "'a ndarray \<Rightarrow> error + 'a ndarray list" where
  "subarrays a =
     (case shape a of
        [] \<Rightarrow> Inl TypeError
      | t # rest \<Rightarrow>
          Inr (map (\<lambda>xs. \<lparr>shape = rest, items = xs\<rparr>) (chunks t (prod_list rest) (items a))))"

text \<open>
  \<open>np.asarray\<close> of a list of equally shaped arrays stacks them along a new first axis;
  of the empty list it is the empty 1-D array.
\<close>

definition np_stack :: "'a ndarray list \<Rightarrow> 'a ndarray" where
  "np_stack as =
     (case as of
        [] \<Rightarrow> \<lparr>shape = [0], items = []\<rparr>
      | a # _ \<Rightarrow> \<lparr>shape = length as # shape a, items = concat (map items as)\<rparr>)"

text \<open>
  Row-major positions: \<open>unravel s k\<close> is the multi-index of the flat position \<open>k\<close> in an
  array of shape \<open>s\<close>, \<open>ravel s idx\<close> the flat position of a multi-index.
\<close>

fun unravel :: "nat list \<Rightarrow> nat \<Rightarrow> nat list" where
  "unravel [] k = []"
| "unravel (d # ds) k = (k div prod_list ds) # unravel ds (k mod prod_list ds)"

fun ravel :: "nat list \<Rightarrow> nat list \<Rightarrow> nat" where
  "ravel (d # ds) (i # idx) = i * prod_list ds + ravel ds idx"
| "ravel _ _ = 0"

text \<open>
  Broadcasting: the shapes are aligned at their last axes, the shorter one is padded
  with leading 1s, and two lengths go together when they are equal or one of them is 1;
  an axis of length 1 is read at position 0 for every position of the result.
  \<open>a * b\<close> raises \<open>ValueError\<close> when the shapes do not go together.
\<close>

definition pad_shape :: "nat \<Rightarrow> nat list \<Rightarrow> nat list" where
  "pad_shape n s = replicate (n - length s) 1 @ s"

definition broadcast_shapes :: "nat list \<Rightarrow> nat list \<Rightarrow> nat list option" where
  "broadcast_shapes s1 s2 =
     (let n = max (length s1) (length s2); p1 = pad_shape n s1; p2 = pad_shape n s2
      in if list_all2 (\<lambda>a b. a = b \<or> a = 1 \<or> b = 1) p1 p2
         then Some (map2 (\<lambda>a b. if a = 1 then b else a) p1 p2)
         else None)"

definition broadcast_index :: "nat list \<Rightarrow> nat list \<Rightarrow> nat" where
  "broadcast_index p idx = ravel p (map2 (\<lambda>d i. if d = 1 then 0 else i) p idx)"

definition np_multiply :: "real ndarray \<Rightarrow> real ndarray \<Rightarrow> error + real ndarray" where
  "np_multiply a b =
     (case broadcast_shapes (shape a) (shape b) of
        None \<Rightarrow> Inl ValueError
      | Some s \<Rightarrow>
          let pa = pad_shape (length s) (shape a); pb = pad_shape (length s) (shape b)
          in Inr \<lparr>shape = s,
                  items = map (\<lambda>k. items a ! broadcast_index pa (unravel s k)
                                     * items b ! broadcast_index pb (unravel s k))
                            [0..<prod_list s]\<rparr>)"

text \<open>A boolean array as numbers, as numpy reads it in arithmetic: False is 0, True is 1.\<close>

definition bool_array :: "bool ndarray \<Rightarrow> real ndarray" where
  "bool_array a = \<lparr>shape = shape a, items = map of_bool (items a)\<rparr>"

text \<open>
  \<open>np.apply_along_axis(f, 1, a)\<close> for a 2-D array \<open>a\<close> and a scalar-valued \<open>f\<close>: \<open>f\<close> is
  called on every row (a 1-D array), the results form a 1-D array. numpy refuses
  an array with no rows, and an exception raised by \<open>f\<close> propagates.
\<close>

definition apply_along_axis1 ::
  "(real ndarray \<Rightarrow> error + real) \<Rightarrow> real ndarray \<Rightarrow> error + real ndarray" where
  "apply_along_axis1 f a =
     (case shape a of
        [t, n] \<Rightarrow>
          if t = 0 then Inl ValueError
          else bind_err (map_err (\<lambda>row. f \<lparr>shape = [n], items = row\<rparr>) (chunks t n (items a)))
                 (\<lambda>ys. Inr \<lparr>shape = [t], items = ys\<rparr>)
      | _ \<Rightarrow> Inl ValueError)"

section \<open>Coverage of valid data\<close>

text \<open>
  \<^verbatim>\<open>def calculate_coverage(array):
    return 1.0 - np.count_nonzero(array) / np.size(array)\<close>
  Both operands of the division are Python ints, so an empty array raises.
  The water-level notebook has the same function under the name \<open>coverage\<close>.
\<close>

definition calculate_coverage :: "real ndarray \<Rightarrow> error + real" where
  "calculate_coverage array =
     bind_err (py_truediv (count_nonzero array) (np_size array)) (\<lambda>q. Inr (1 - q))"

definition coverage :: "real ndarray \<Rightarrow> error + real" where
  "coverage array =
     bind_err (py_truediv (count_nonzero array) (np_size array)) (\<lambda>q. Inr (1 - q))"

section \<open>Inflating the bounding box of the dam\<close>

text \<open>
  \<^verbatim>\<open>inflate_bbox = 0.1
minx, miny, maxx, maxy = dam_nominal.bounds
delx = maxx - minx
dely = maxy - miny
minx = minx - delx * inflate_bbox
maxx = maxx + delx * inflate_bbox
miny = miny - dely * inflate_bbox
maxy = maxy + dely * inflate_bbox
dam_bbox = BBox([minx, miny, maxx, maxy], crs=CRS.WGS84)\<close>
  The model takes \<open>dam_nominal.bounds\<close> and gives the four coordinates of \<open>dam_bbox\<close>.
\<close>

type_synonym bounds = "real \<times> real \<times> real \<times> real"

definition inflate_bbox :: real where
  "inflate_bbox = 1 / 10"

definition dam_bbox :: "bounds \<Rightarrow> bounds" where
  "dam_bbox b =
     (case b of (minx, miny, maxx, maxy) \<Rightarrow>
        let delx = maxx - minx;
            dely = maxy - miny;
            minx' = minx - delx * inflate_bbox;
            maxx' = maxx + delx * inflate_bbox;
            miny' = miny - dely * inflate_bbox;
            maxy' = maxy + dely * inflate_bbox
        in (minx', miny', maxx', maxy'))"

section \<open>The EOPatch container\<close>

text \<open>
  Modelled from the spec: the \<open>EOPatch\<close> container of the external \<open>eo-learn\<close> library,
  which the notebooks import and which is not among the sources. It is a feature store
  keyed by a (feature type, name) pair, with a bounding-box slot and a timestamp list.
  Each raster feature type mandates the number of dimensions of its array, as the table
  of the basics notebook lists them (\<open>DATA\<close> and \<open>MASK\<close>: \<open>t x n x m x d\<close>; \<open>SCALAR\<close> and
  \<open>LABEL\<close>: \<open>t x d\<close>; \<open>DATA_TIMELESS\<close> and \<open>MASK_TIMELESS\<close>: \<open>n x m x d\<close>;
  \<open>SCALAR_TIMELESS\<close> and \<open>LABEL_TIMELESS\<close>: \<open>d\<close>); vector features are
  \<open>GeoDataFrame\<close>s with the required columns; \<open>META_INFO\<close> holds anything. Storing a
  value its feature type does not accept raises \<open>ValueError\<close> and stores nothing;
  reading or deleting an absent feature raises \<open>KeyError\<close>.
\<close>

datatype feature_type =
    DATA | MASK | SCALAR | LABEL
  | DATA_TIMELESS | MASK_TIMELESS | SCALAR_TIMELESS | LABEL_TIMELESS
  | VECTOR | VECTOR_TIMELESS | META_INFO

datatype fvalue = NdArray "real ndarray" | GeoDataFrame "string list" | PyObject

type_synonym feature_key = "feature_type \<times> string"

record eopatch =
  features :: "(feature_key \<times> fvalue) list"
  bbox :: "bounds option"
  timestamp :: "nat list"

definition EOPatch_empty :: eopatch where
  "EOPatch_empty = \<lparr>features = [], bbox = None, timestamp = []\<rparr>"

fun required_ndim :: "feature_type \<Rightarrow> nat option" where
  "required_ndim DATA = Some 4"
| "required_ndim MASK = Some 4"
| "required_ndim SCALAR = Some 2"
| "required_ndim LABEL = Some 2"
| "required_ndim DATA_TIMELESS = Some 3"
| "required_ndim MASK_TIMELESS = Some 3"
| "required_ndim SCALAR_TIMELESS = Some 1"
| "required_ndim LABEL_TIMELESS = Some 1"
| "required_ndim VECTOR = None"
| "required_ndim VECTOR_TIMELESS = None"
| "required_ndim META_INFO = None"

fun accepts :: "feature_type \<Rightarrow> fvalue \<Rightarrow> bool" where
  "accepts META_INFO v = True"
| "accepts VECTOR v =
     (case v of GeoDataFrame cols \<Rightarrow> ''geometry'' \<in> set cols \<and> ''TIMESTAMP'' \<in> set cols
              | _ \<Rightarrow> False)"
| "accepts VECTOR_TIMELESS v =
     (case v of GeoDataFrame cols \<Rightarrow> ''geometry'' \<in> set cols | _ \<Rightarrow> False)"
| "accepts ft v =
     (case v of NdArray a \<Rightarrow> required_ndim ft = Some (ndim a) | _ \<Rightarrow> False)"

text \<open>\<open>eopatch[key]\<close>, \<open>eopatch.data[name]\<close> and \<open>eopatch.get_feature(ftype, name)\<close>.\<close>

definition getitem :: "eopatch \<Rightarrow> feature_key \<Rightarrow> error + fvalue" where
  "getitem p k = (case map_of (features p) k of None \<Rightarrow> Inl KeyError | Some v \<Rightarrow> Inr v)"

definition get_feature :: "eopatch \<Rightarrow> feature_type \<Rightarrow> string \<Rightarrow> error + fvalue" where
  "get_feature p ft name = getitem p (ft, name)"

text \<open>\<open>eopatch[key] = v\<close>, \<open>eopatch.data[name] = v\<close> and \<open>eopatch.add_feature(ftype, name, v)\<close>.\<close>

definition setitem :: "eopatch \<Rightarrow> feature_key \<Rightarrow> fvalue \<Rightarrow> error + eopatch" where
  "setitem p k v =
     (if accepts (fst k) v then Inr (p\<lparr>features := AList.update k v (features p)\<rparr>)
      else Inl ValueError)"

definition add_feature :: "eopatch \<Rightarrow> feature_type \<Rightarrow> string \<Rightarrow> fvalue \<Rightarrow> error + eopatch" where
  "add_feature p ft name v = setitem p (ft, name) v"

text \<open>\<open>del eopatch[key]\<close>.\<close>

definition delitem :: "eopatch \<Rightarrow> feature_key \<Rightarrow> error + eopatch" where
  "delitem p k =
     (case map_of (features p) k of
        None \<Rightarrow> Inl KeyError
      | Some _ \<Rightarrow> Inr (p\<lparr>features := AList.delete k (features p)\<rparr>))"

text \<open>
  The invariant the container maintains: every stored value was accepted by its feature
  type, and every stored array is a well-formed numpy array.
\<close>

definition value_ok :: "fvalue \<Rightarrow> bool" where
  "value_ok v = (case v of NdArray a \<Rightarrow> array_ok a | _ \<Rightarrow> True)"

definition eopatch_ok :: "eopatch \<Rightarrow> bool" where
  "eopatch_ok p = list_all (\<lambda>(k, v). accepts (fst k) v \<and> value_ok v) (features p)"

section \<open>Assigning an array without a time dimension\<close>

text \<open>
  \<^verbatim>\<open>timeless_data = np.zeros((10, 10, 13), dtype=np.uint16)
try:
    patch.data['timeless_example'] = timeless_data
except ValueError as e:
    print(e)\<close>
  The cell yields the patch it leaves behind and whether the handler printed a message;
  an exception other than \<open>ValueError\<close> would leave the cell.
\<close>

definition example_bands :: "real ndarray" where
  "example_bands = \<lparr>shape = [5, 10, 10, 3], items = replicate 1500 0\<rparr>"

definition timeless_data :: "real ndarray" where
  "timeless_data = \<lparr>shape = [10, 10, 13], items = replicate 1300 0\<rparr>"

definition assign_timeless_example :: "eopatch \<Rightarrow> real ndarray \<Rightarrow> error + (eopatch \<times> bool)" where
  "assign_timeless_example patch arr =
     (case setitem patch (DATA, ''timeless_example'') (NdArray arr) of
        Inr patch' \<Rightarrow> Inr (patch', False)
      | Inl e \<Rightarrow> if e = ValueError then Inr (patch, True) else Inl e)"

section \<open>RenameFeature\<close>

text \<open>
  \<^verbatim>\<open>class RenameFeature(EOTask):
    def __init__(self, feature, new_feature):
        self.feature = feature
        self.new_feature = new_feature

    def execute(self, eopatch):
        eopatch[self.new_feature] = eopatch[self.feature]
        del eopatch[self.feature]
        return eopatch\<close>
\<close>

record RenameFeature =
  feature :: feature_key
  new_feature :: feature_key

definition RenameFeature_execute :: "RenameFeature \<Rightarrow> eopatch \<Rightarrow> error + eopatch" where
  "RenameFeature_execute self eopatch =
     bind_err (getitem eopatch (feature self)) (\<lambda>v.
     bind_err (setitem eopatch (new_feature self) v) (\<lambda>eopatch1.
     bind_err (delitem eopatch1 (feature self)) (\<lambda>eopatch2.
     Inr eopatch2)))"

section \<open>Water detection: thresholding\<close>

text \<open>\<open>np.unique(a)\<close>: the sorted distinct values of the array.\<close>

definition np_unique :: "real ndarray \<Rightarrow> real list" where
  "np_unique a = remdups_adj (sort (items a))"

text \<open>
  \<^verbatim>\<open>@staticmethod
def detect_water(ndwi):
    otsu_thr = 1.0
    if len(np.unique(ndwi)) > 1:
        otsu_thr = threshold_otsu(ndwi)
    return ndwi > otsu_thr\<close>
  \<open>threshold_otsu\<close> belongs to \<open>skimage\<close>; it is a parameter of the model.
\<close>

definition detect_water :: "(real ndarray \<Rightarrow> real) \<Rightarrow> real ndarray \<Rightarrow> bool ndarray" where
  "detect_water threshold_otsu ndwi =
     (let otsu_thr = (if length (np_unique ndwi) > 1 then threshold_otsu ndwi else 1)
      in \<lparr>shape = shape ndwi, items = map (\<lambda>x. x > otsu_thr) (items ndwi)\<rparr>)"

section \<open>Cloud coverage filter\<close>






section \<open>AddValidDataCoverage\<close>

text \<open>
  A raster feature always holds an array; \<open>the_array\<close> reads it, and a value of
  another kind has no \<open>shape\<close> to unpack.
\<close>

definition the_array :: "fvalue \<Rightarrow> error + real ndarray" where
  "the_array v = (case v of NdArray a \<Rightarrow> Inr a | _ \<Rightarrow> Inl TypeError)"

text \<open>
  The workshop notebook:
  \<^verbatim>\<open>class AddValidDataCoverage(EOTask):
    def execute(self, eopatch):
        valid_data = eopatch.get_feature(FeatureType.MASK, 'VALID_DATA')
        time, height, width, channels = valid_data.shape
        coverage = np.apply_along_axis(calculate_coverage, 1,
                       valid_data.reshape((time, height * width * channels)))
        eopatch.add_feature(FeatureType.SCALAR, 'COVERAGE', coverage[:, np.newaxis])
        return eopatch\<close>
\<close>

definition AddValidDataCoverage_execute :: "eopatch \<Rightarrow> error + eopatch" where
  "AddValidDataCoverage_execute eopatch =
     bind_err (get_feature eopatch MASK ''VALID_DATA'') (\<lambda>v.
     bind_err (the_array v) (\<lambda>valid_data.
       case shape valid_data of
         [time, height, width, channels] \<Rightarrow>
           bind_err (np_reshape valid_data [time, height * width * channels]) (\<lambda>flat.
           bind_err (apply_along_axis1 calculate_coverage flat) (\<lambda>cov.
           bind_err (add_feature eopatch SCALAR ''COVERAGE'' (NdArray (newaxis_last cov)))
             (\<lambda>eopatch'. Inr eopatch')))
       | _ \<Rightarrow> Inl ValueError))"

text \<open>
  The water-level notebook:
  \<^verbatim>\<open>class AddValidDataCoverage(EOTask):
    def execute(self, eopatch):
        vld = eopatch.get_feature(FeatureType.MASK, 'VALID_DATA')
        cvrg = np.apply_along_axis(coverage, 1,
                   np.reshape(vld, (vld.shape[0], vld.shape[1]*vld.shape[2])))
        eopatch.add_feature(FeatureType.SCALAR, 'COVERAGE', cvrg[:,np.newaxis])
        return eopatch\<close>
  The new shape leaves the channel axis out; \<open>vld.shape[2]\<close> on a shorter shape raises
  \<open>IndexError\<close>.
\<close>

definition AddValidDataCoverage_execute_water_level :: "eopatch \<Rightarrow> error + eopatch" where
  "AddValidDataCoverage_execute_water_level eopatch =
     bind_err (get_feature eopatch MASK ''VALID_DATA'') (\<lambda>v.
     bind_err (the_array v) (\<lambda>vld.
       case shape vld of
         s0 # s1 # s2 # _ \<Rightarrow>
           bind_err (np_reshape vld [s0, s1 * s2]) (\<lambda>flat.
           bind_err (apply_along_axis1 coverage flat) (\<lambda>cvrg.
           bind_err (add_feature eopatch SCALAR ''COVERAGE'' (NdArray (newaxis_last cvrg)))
             (\<lambda>eopatch'. Inr eopatch')))
       | _ \<Rightarrow> Inl IndexError))"

section \<open>TimeLapseTask\<close>

text \<open>
  \<open>a[..., idx]\<close> with a list \<open>idx\<close> of channel numbers picks those entries of the last
  axis, in the order of \<open>idx\<close>; \<open>a[..., i]\<close> with one number drops the last axis. A channel
  number outside the last axis raises \<open>IndexError\<close>.
\<close>

definition take_channels :: "nat list \<Rightarrow> 'a ndarray \<Rightarrow> error + 'a ndarray" where
  "take_channels idx a =
     (if shape a = [] then Inl IndexError
      else
        let c = last (shape a); outer = butlast (shape a)
        in if list_all (\<lambda>i. i < c) idx
           then Inr \<lparr>shape = outer @ [length idx],
                     items = concat (map (\<lambda>q. map (\<lambda>i. items a ! (q * c + i)) idx)
                                        [0..<prod_list outer])\<rparr>
           else Inl IndexError)"

definition take_channel :: "nat \<Rightarrow> 'a ndarray \<Rightarrow> error + 'a ndarray" where
  "take_channel i a =
     (if shape a = [] then Inl IndexError
      else
        let c = last (shape a); outer = butlast (shape a)
        in if i < c
           then Inr \<lparr>shape = outer, items = map (\<lambda>q. items a ! (q * c + i)) [0..<prod_list outer]\<rparr>
           else Inl IndexError)"

definition np_clip :: "real \<Rightarrow> real \<Rightarrow> real \<Rightarrow> real" where
  "np_clip x lo hi = min (max x lo) hi"

text \<open>Casting a float to \<open>uint8\<close> drops the fraction; the integer is kept modulo 256.\<close>

definition to_uint8 :: "real \<Rightarrow> nat" where
  "to_uint8 x = nat ((if 0 \<le> x then \<lfloor>x\<rfloor> else \<lceil>x\<rceil>) mod 256)"

text \<open>\<open>os.path.join\<close> of two POSIX path components.\<close>

definition os_path_join :: "string \<Rightarrow> string \<Rightarrow> string" where
  "os_path_join a b =
     (if b \<noteq> [] \<and> hd b = CHR ''/'' then b
      else if a = [] \<or> last a = CHR ''/'' then a @ b
      else a @ ''/'' @ b)"

text \<open>
  \<^verbatim>\<open>class TimeLapseTask(EOTask):
    def __init__(self, project_dir='.', filename='timelapse.gif', fps=5, brightness_factor=1):
        self.project_dir = project_dir
        self.filename = filename
        self.fps = fps
        self.brightness_factor = brightness_factor

    def execute(self, eopatch):
        with imageio.get_writer(os.path.join(self.project_dir, self.filename),
                                mode='I', fps=self.fps) as writer:
            for image in eopatch.data['BANDS-S2-L1C']:
                rgb_image = image[..., [3, 2, 1]]
                size_of_uint8 = 255 #(2^8)
                rgb_image = np.array(np.clip(rgb_image*self.brightness_factor, 0, 1)
                                     * size_of_uint8, dtype=np.uint8)
                writer.append_data(rgb_image)
        return eopatch\<close>
  The band values are floats, as the source's comment says and as the feature type
  \<open>DATA\<close> has them; they are modelled as reals.

  \<open>imageio\<close> is an external library and not among the sources, so its GIF writer is
  a parameter of the model: \<open>open_error\<close> is the exception \<open>get_writer\<close> raises for a
  path and a frame rate, \<open>append_error\<close> the exception \<open>append_data\<close> raises for a frame
  after the frames written so far, \<open>close_error\<close> the exception closing the writer
  raises at the end of the \<open>with\<close> block; \<open>None\<close> means no exception. \<open>execute\<close>
  yields the file the writer has written (none when \<open>get_writer\<close> raised), together
  with its outcome: the returned EOPatch or the exception. An exception in the body of
  the \<open>with\<close> block still closes the writer, and an exception of the closing replaces it.
\<close>

record TimeLapseTask =
  project_dir :: string
  filename :: string
  fps :: nat
  brightness_factor :: real

record gif_file =
  gif_path :: string
  gif_fps :: nat
  gif_frames :: "nat ndarray list"

record gif_writer =
  open_error :: "string \<Rightarrow> nat \<Rightarrow> error option"
  append_error :: "nat ndarray list \<Rightarrow> nat ndarray \<Rightarrow> error option"
  close_error :: "nat ndarray list \<Rightarrow> error option"

text \<open>
  A writer with the two refusals known of the GIF writer of \<open>imageio\<close>: it divides by the
  frame rate when it is opened, so a frame rate of 0 raises \<open>ZeroDivisionError\<close>, and it
  refuses a frame without pixels with \<open>ValueError\<close>.
\<close>

definition checking_writer :: gif_writer where
  "checking_writer =
     \<lparr>open_error = (\<lambda>path rate. if rate = 0 then Some ZeroDivisionError else None),
      append_error = (\<lambda>written frame. if prod_list (shape frame) = 0 then Some ValueError else None),
      close_error = (\<lambda>written. None)\<rparr>"

definition rgb_frame :: "real \<Rightarrow> real ndarray \<Rightarrow> error + nat ndarray" where
  "rgb_frame factor img =
     bind_err (take_channels [3, 2, 1] img) (\<lambda>rgb_image.
       let size_of_uint8 = 255
       in Inr \<lparr>shape = shape rgb_image,
               items = map (\<lambda>x. to_uint8 (np_clip (x * factor) 0 1 * size_of_uint8))
                         (items rgb_image)\<rparr>)"

fun append_frames ::
  "gif_writer \<Rightarrow> real \<Rightarrow> real ndarray list \<Rightarrow> nat ndarray list
     \<Rightarrow> nat ndarray list \<times> error option" where
  "append_frames writer factor [] written = (written, None)"
| "append_frames writer factor (img # images) written =
     (case rgb_frame factor img of
        Inl e \<Rightarrow> (written, Some e)
      | Inr frame \<Rightarrow>
          (case append_error writer written frame of
             Some e \<Rightarrow> (written, Some e)
           | None \<Rightarrow> append_frames writer factor images (written @ [frame])))"

definition TimeLapseTask_execute ::
  "gif_writer \<Rightarrow> TimeLapseTask \<Rightarrow> eopatch \<Rightarrow> gif_file option \<times> (error + eopatch)" where
  "TimeLapseTask_execute writer self eopatch =
     (let path = os_path_join (project_dir self) (filename self)
      in case open_error writer path (fps self) of
           Some e \<Rightarrow> (None, Inl e)
         | None \<Rightarrow>
             (case (case bind_err (getitem eopatch (DATA, ''BANDS-S2-L1C''))
                           (\<lambda>v. bind_err (the_array v) subarrays) of
                      Inl e \<Rightarrow> ([], Some e)
                    | Inr images \<Rightarrow> append_frames writer (brightness_factor self) images [])
              of (written, body) \<Rightarrow>
                let file = \<lparr>gif_path = path, gif_fps = fps self, gif_frames = written\<rparr>
                in case close_error writer written of
                     Some e \<Rightarrow> (Some file, Inl e)
                   | None \<Rightarrow>
                       (case body of
                          Some e \<Rightarrow> (Some file, Inl e)
                        | None \<Rightarrow> (Some file, Inr eopatch))))"

section \<open>WaterDetector\<close>

text \<open>
  \<^verbatim>\<open>def execute(self, eopatch):
    water_masks = np.asarray([self.detect_water(ndwi[...,0]) for ndwi in eopatch.data['NDWI']])

    # we're only interested in the water within the dam borders
    water_masks = water_masks[...,np.newaxis] * eopatch.mask_timeless['NOMINAL_WATER']

    water_levels = np.asarray([np.count_nonzero(mask)/np.count_nonzero(eopatch.mask_timeless['NOMINAL_WATER'])
                               for mask in water_masks])

    eopatch.add_feature(FeatureType.MASK, 'WATER_MASK', water_masks)
    eopatch.add_feature(FeatureType.SCALAR, 'WATER_LEVEL', water_levels[...,np.newaxis])

    return eopatch\<close>
  Both counts are Python ints, so a nominal mask without a non-zero pixel makes the
  division raise \<open>ZeroDivisionError\<close>.
\<close>

definition WaterDetector_execute :: "(real ndarray \<Rightarrow> real) \<Rightarrow> eopatch \<Rightarrow> error + eopatch" where
  "WaterDetector_execute threshold_otsu eopatch =
     bind_err (getitem eopatch (DATA, ''NDWI'')) (\<lambda>v.
     bind_err (the_array v) (\<lambda>ndwi_all.
     bind_err (subarrays ndwi_all) (\<lambda>ndwis.
     bind_err (map_err (\<lambda>ndwi. bind_err (take_channel 0 ndwi)
                                   (\<lambda>band. Inr (detect_water threshold_otsu band))) ndwis) (\<lambda>masks.
     let water_masks = np_stack (map bool_array masks)
     in
     bind_err (getitem eopatch (MASK_TIMELESS, ''NOMINAL_WATER'')) (\<lambda>nv.
     bind_err (the_array nv) (\<lambda>nominal.
     bind_err (np_multiply (newaxis_last water_masks) nominal) (\<lambda>water_masks'.
     bind_err (subarrays water_masks') (\<lambda>per_date.
     bind_err (map_err (\<lambda>mask. py_truediv (count_nonzero mask) (count_nonzero nominal)) per_date)
       (\<lambda>levels.
     let water_levels = \<lparr>shape = [length levels], items = levels\<rparr>
     in
     bind_err (add_feature eopatch MASK ''WATER_MASK'' (NdArray water_masks')) (\<lambda>eopatch1.
     bind_err (add_feature eopatch1 SCALAR ''WATER_LEVEL'' (NdArray (newaxis_last water_levels)))
       (\<lambda>eopatch2.
     Inr eopatch2)))))))))))"

section \<open>Properties\<close>

subsection \<open>Helper facts\<close>

lemma length_filter_nonzero_plus_zero:
  "length (filter (\<lambda>x. x \<noteq> (0::real)) xs) + length (filter (\<lambda>x. x = 0) xs) = length xs"
  by (induction xs) auto

subsection \<open>Coverage\<close>

text \<open>
  C3. For every non-empty array, \<open>calculate_coverage\<close> (and \<open>coverage\<close> of the
  water-level notebook) returns 1.0 minus the number of non-zero elements divided by
  the number of elements. That value is the fraction of elements equal to zero, and it
  lies in the closed interval from 0 to 1.
\<close>

theorem calculate_coverage_fraction:
  assumes "array_ok a" and "0 < np_size a"
  shows "calculate_coverage a = Inr (1 - real (count_nonzero a) / real (np_size a))
       \<and> coverage a = calculate_coverage a
       \<and> 1 - real (count_nonzero a) / real (np_size a)
           = real (length (filter (\<lambda>x. x = 0) (items a))) / real (length (items a))
       \<and> 0 \<le> 1 - real (count_nonzero a) / real (np_size a)
       \<and> 1 - real (count_nonzero a) / real (np_size a) \<le> 1"
proof -
  let ?n = "np_size a" and ?c = "count_nonzero a"
  let ?z = "length (filter (\<lambda>x. x = 0) (items a))"
  have len: "length (items a) = ?n"
    using assms(1) by (simp add: array_ok_def np_size_def)
  have split: "?c + ?z = ?n"
    using length_filter_nonzero_plus_zero [of "items a"] len by (simp add: count_nonzero_def)
  have npos: "0 < real ?n" using assms(2) by simp
  have run: "calculate_coverage a = Inr (1 - real ?c / real ?n)"
    using assms(2) by (simp add: calculate_coverage_def py_truediv_def bind_err_def)
  have same: "coverage a = calculate_coverage a"
    by (simp add: coverage_def calculate_coverage_def)
  have "real ?n - real ?c = real ?z" using split by linarith
  then have frac: "1 - real ?c / real ?n = real ?z / real ?n"
    using npos by (simp add: field_simps)
  have le: "real ?c \<le> real ?n" using split by linarith
  have lo: "0 \<le> 1 - real ?c / real ?n" using le npos by (simp add: field_simps)
  have hi: "1 - real ?c / real ?n \<le> 1" using npos by simp
  show ?thesis using run same frac lo hi len by simp
qed

theorem calculate_coverage_fraction_witness:
  "array_ok \<lparr>shape = [2, 2], items = [1, 0, 0, 0 :: real]\<rparr>
   \<and> 0 < np_size \<lparr>shape = [2, 2], items = [1, 0, 0, 0 :: real]\<rparr>
   \<and> calculate_coverage \<lparr>shape = [2, 2], items = [1, 0, 0, 0 :: real]\<rparr> = Inr (3 / 4)"
proof -
  let ?a = "\<lparr>shape = [2, 2], items = [1, 0, 0, 0 :: real]\<rparr>"
  have ok: "array_ok ?a" by (simp add: array_ok_def)
  have pos: "0 < np_size ?a" by (simp add: np_size_def)
  have "calculate_coverage ?a = Inr (1 - real (count_nonzero ?a) / real (np_size ?a))"
    using calculate_coverage_fraction [OF ok pos] by blast
  then have "calculate_coverage ?a = Inr (3 / 4)"
    by (simp add: count_nonzero_def np_size_def)
  then show ?thesis using ok pos by blast
qed

subsection \<open>Bounding box\<close>

text \<open>
  C10. With \<open>inflate_bbox = 0.1\<close> the inflated box is
  \<open>[minx - 0.1*(maxx-minx), miny - 0.1*(maxy-miny), maxx + 0.1*(maxx-minx),
  maxy + 0.1*(maxy-miny)]\<close>. In exact arithmetic each side of it is 1.2 times the
  original side, and it contains the bounds of the nominal geometry (bounds have
  \<open>minx \<le> maxx\<close> and \<open>miny \<le> maxy\<close>).
\<close>

theorem dam_bbox_inflated:
  "dam_bbox (minx, miny, maxx, maxy)
     = (minx - (1 / 10) * (maxx - minx), miny - (1 / 10) * (maxy - miny),
        maxx + (1 / 10) * (maxx - minx), maxy + (1 / 10) * (maxy - miny))
   \<and> (case dam_bbox (minx, miny, maxx, maxy) of (x0, y0, x1, y1) \<Rightarrow>
        x1 - x0 = (12 / 10) * (maxx - minx) \<and> y1 - y0 = (12 / 10) * (maxy - miny)
        \<and> (minx \<le> maxx \<and> miny \<le> maxy \<longrightarrow> x0 \<le> minx \<and> y0 \<le> miny \<and> maxx \<le> x1 \<and> maxy \<le> y1))"
  by (simp add: dam_bbox_def inflate_bbox_def Let_def field_simps)

theorem dam_bbox_inflated_witness:
  "dam_bbox (0, 10, 10, 30) = (-1, 8, 11, 32)
   \<and> (0::real) \<le> 10 \<and> (10::real) \<le> 30
   \<and> (-1::real) \<le> 0 \<and> (8::real) \<le> 10 \<and> (10::real) \<le> 11 \<and> (30::real) \<le> 32"
  using dam_bbox_inflated [of 0 10 10 30] by simp

subsection \<open>The container rejects malformed input\<close>

lemma getitem_setitem:
  "setitem p k v = Inr p' \<Longrightarrow> getitem p' k' = (if k' = k then Inr v else getitem p k')"
  by (auto simp: setitem_def getitem_def update_conv' split: if_splits)

lemma getitem_delitem:
  "delitem p k = Inr p' \<Longrightarrow> getitem p' k' = (if k' = k then Inl KeyError else getitem p k')"
  by (auto simp: delitem_def getitem_def delete_conv' split: option.splits if_splits)

lemma eopatch_ok_accepts:
  "eopatch_ok p \<Longrightarrow> getitem p k = Inr v \<Longrightarrow> accepts (fst k) v \<and> value_ok v"
proof -
  assume ok: "eopatch_ok p" and get: "getitem p k = Inr v"
  from get have "map_of (features p) k = Some v"
    by (simp add: getitem_def split: option.splits)
  then have "(k, v) \<in> set (features p)" by (rule map_of_SomeD)
  with ok show ?thesis by (auto simp: eopatch_ok_def list_all_iff)
qed

text \<open>
  C1. Assigning an array without a time dimension (a 3-D array) to a feature of the
  time-dependent raster type \<open>DATA\<close> raises \<open>ValueError\<close>; the \<open>try/except\<close> of the cell
  catches it, and the patch the cell leaves behind is the patch it started with.
\<close>

theorem timeless_assignment_rejected:
  assumes "ndim arr = 3"
  shows "setitem patch (DATA, name) (NdArray arr) = Inl ValueError
       \<and> assign_timeless_example patch arr = Inr (patch, True)"
  using assms by (simp add: setitem_def assign_timeless_example_def)

theorem timeless_assignment_rejected_witness:
  "ndim timeless_data = 3
   \<and> assign_timeless_example (EOPatch_empty\<lparr>features := [((DATA, ''example''), NdArray example_bands)]\<rparr>)
        timeless_data
     = Inr (EOPatch_empty\<lparr>features := [((DATA, ''example''), NdArray example_bands)]\<rparr>, True)"
proof -
  have d: "ndim timeless_data = 3" by (simp add: ndim_def timeless_data_def)
  show ?thesis using d timeless_assignment_rejected [OF d] by simp
qed

subsection \<open>Renaming a feature\<close>

text \<open>
  C7, as the claim states it, fails: the data stored under \<open>feature\<close> need not be
  acceptable to the feature type of \<open>new_feature\<close>. Renaming a 4-D \<open>DATA\<close> feature to a
  \<open>DATA_TIMELESS\<close> feature raises \<open>ValueError\<close> at the assignment.
\<close>

theorem RenameFeature_other_type_counterexample:
  "getitem \<lparr>features = [((DATA, ''BANDS''), NdArray \<lparr>shape = [1, 1, 1, 1], items = [0]\<rparr>)],
            bbox = None, timestamp = []\<rparr> (DATA, ''BANDS'')
     = Inr (NdArray \<lparr>shape = [1, 1, 1, 1], items = [0]\<rparr>)
   \<and> (DATA_TIMELESS, ''BANDS'') \<noteq> (DATA, ''BANDS'')
   \<and> RenameFeature_execute \<lparr>feature = (DATA, ''BANDS''), new_feature = (DATA_TIMELESS, ''BANDS'')\<rparr>
        \<lparr>features = [((DATA, ''BANDS''), NdArray \<lparr>shape = [1, 1, 1, 1], items = [0]\<rparr>)],
         bbox = None, timestamp = []\<rparr>
     = Inl ValueError"
  by (simp add: RenameFeature_execute_def getitem_def setitem_def bind_err_def ndim_def)

text \<open>
  C7, amended. For every EOPatch that contains \<open>feature\<close>, where \<open>new_feature\<close> differs
  from \<open>feature\<close> and the feature type of \<open>new_feature\<close> accepts the stored data (as it
  does whenever both keys have the same feature type), \<open>execute\<close> returns an EOPatch
  that holds the original data under \<open>new_feature\<close>, no longer contains \<open>feature\<close>, and
  has every other feature, the bounding box and the timestamps unchanged.
\<close>

theorem RenameFeature_moves_data:
  assumes "getitem p (feature self) = Inr v"
    and "new_feature self \<noteq> feature self"
    and "accepts (fst (new_feature self)) v"
  shows "\<exists>p'. RenameFeature_execute self p = Inr p'
          \<and> getitem p' (new_feature self) = Inr v
          \<and> getitem p' (feature self) = Inl KeyError
          \<and> (\<forall>k. k \<noteq> feature self \<and> k \<noteq> new_feature self \<longrightarrow> getitem p' k = getitem p k)
          \<and> bbox p' = bbox p \<and> timestamp p' = timestamp p"
proof -
  let ?f = "feature self" and ?n = "new_feature self"
  obtain p1 where p1: "setitem p ?n v = Inr p1"
    and p1_def: "p1 = p\<lparr>features := AList.update ?n v (features p)\<rparr>"
    using assms(3) by (simp add: setitem_def)
  have get1: "getitem p1 ?f = Inr v"
    using getitem_setitem [OF p1, of ?f] assms(1,2) by simp
  then obtain p2 where p2: "delitem p1 ?f = Inr p2"
    and p2_def: "p2 = p1\<lparr>features := AList.delete ?f (features p1)\<rparr>"
    by (auto simp: delitem_def getitem_def split: option.splits)
  have run: "RenameFeature_execute self p = Inr p2"
    using assms(1) p1 p2 by (simp add: RenameFeature_execute_def bind_err_def)
  have a: "getitem p2 ?n = Inr v"
    using getitem_delitem [OF p2, of ?n] getitem_setitem [OF p1, of ?n] assms(2) by simp
  have b: "getitem p2 ?f = Inl KeyError"
    using getitem_delitem [OF p2, of ?f] by simp
  have c: "\<forall>k. k \<noteq> ?f \<and> k \<noteq> ?n \<longrightarrow> getitem p2 k = getitem p k"
    using getitem_delitem [OF p2] getitem_setitem [OF p1] by simp
  have d: "bbox p2 = bbox p \<and> timestamp p2 = timestamp p"
    by (simp add: p1_def p2_def)
  show ?thesis using run a b c d by blast
qed

theorem RenameFeature_moves_data_witness:
  "\<exists>p'. RenameFeature_execute \<lparr>feature = (DATA, ''BANDS''), new_feature = (DATA, ''NEW'')\<rparr>
          \<lparr>features = [((DATA, ''BANDS''), NdArray \<lparr>shape = [1, 1, 1, 1], items = [0]\<rparr>)],
           bbox = None, timestamp = []\<rparr> = Inr p'
      \<and> getitem p' (DATA, ''NEW'') = Inr (NdArray \<lparr>shape = [1, 1, 1, 1], items = [0]\<rparr>)
      \<and> getitem p' (DATA, ''BANDS'') = Inl KeyError"
proof -
  let ?v = "NdArray \<lparr>shape = [1, 1, 1, 1], items = [0]\<rparr>"
  let ?p = "\<lparr>features = [((DATA, ''BANDS''), ?v)], bbox = None, timestamp = []\<rparr>"
  let ?self = "\<lparr>feature = (DATA, ''BANDS''), new_feature = (DATA, ''NEW'')\<rparr>"
  have h1: "getitem ?p (feature ?self) = Inr ?v" by (simp add: getitem_def)
  have h2: "new_feature ?self \<noteq> feature ?self" by simp
  have h3: "accepts (fst (new_feature ?self)) ?v" by (simp add: ndim_def)
  have "\<exists>p'. RenameFeature_execute ?self ?p = Inr p'
          \<and> getitem p' (new_feature ?self) = Inr ?v
          \<and> getitem p' (feature ?self) = Inl KeyError"
    using RenameFeature_moves_data [OF h1 h2 h3] by blast
  then show ?thesis by simp
qed

text \<open>
  C8. When \<open>new_feature\<close> equals \<open>feature\<close>, \<open>execute\<close> on an EOPatch that contains the
  feature returns an EOPatch that no longer contains it: the assignment writes the data
  back under the same key and the delete removes it. Nothing else changes.
\<close>

theorem RenameFeature_same_name_loses_data:
  assumes "eopatch_ok p"
    and "getitem p (feature self) = Inr v"
    and "new_feature self = feature self"
  shows "\<exists>p'. RenameFeature_execute self p = Inr p'
          \<and> getitem p' (feature self) = Inl KeyError
          \<and> (\<forall>k. k \<noteq> feature self \<longrightarrow> getitem p' k = getitem p k)
          \<and> bbox p' = bbox p \<and> timestamp p' = timestamp p"
proof -
  let ?f = "feature self"
  have acc: "accepts (fst ?f) v"
    using eopatch_ok_accepts [OF assms(1,2)] by simp
  obtain p1 where p1: "setitem p ?f v = Inr p1"
    and p1_def: "p1 = p\<lparr>features := AList.update ?f v (features p)\<rparr>"
    using acc by (simp add: setitem_def)
  have "getitem p1 ?f = Inr v"
    using getitem_setitem [OF p1, of ?f] by simp
  then obtain p2 where p2: "delitem p1 ?f = Inr p2"
    and p2_def: "p2 = p1\<lparr>features := AList.delete ?f (features p1)\<rparr>"
    by (auto simp: delitem_def getitem_def split: option.splits)
  have run: "RenameFeature_execute self p = Inr p2"
    using assms(2,3) p1 p2 by (simp add: RenameFeature_execute_def bind_err_def)
  have b: "getitem p2 ?f = Inl KeyError"
    using getitem_delitem [OF p2, of ?f] by simp
  have c: "\<forall>k. k \<noteq> ?f \<longrightarrow> getitem p2 k = getitem p k"
    using getitem_delitem [OF p2] getitem_setitem [OF p1] by simp
  have d: "bbox p2 = bbox p \<and> timestamp p2 = timestamp p"
    by (simp add: p1_def p2_def)
  show ?thesis using run b c d by blast
qed

theorem RenameFeature_same_name_loses_data_witness:
  "\<exists>p'. RenameFeature_execute \<lparr>feature = (DATA, ''BANDS''), new_feature = (DATA, ''BANDS'')\<rparr>
          \<lparr>features = [((DATA, ''BANDS''), NdArray \<lparr>shape = [1, 1, 1, 1], items = [0]\<rparr>)],
           bbox = None, timestamp = []\<rparr> = Inr p'
      \<and> getitem p' (DATA, ''BANDS'') = Inl KeyError"
proof -
  let ?v = "NdArray \<lparr>shape = [1, 1, 1, 1], items = [0]\<rparr>"
  let ?p = "\<lparr>features = [((DATA, ''BANDS''), ?v)], bbox = None, timestamp = []\<rparr>"
  let ?self = "\<lparr>feature = (DATA, ''BANDS''), new_feature = (DATA, ''BANDS'')\<rparr>"
  have h1: "eopatch_ok ?p" by (simp add: eopatch_ok_def value_ok_def array_ok_def ndim_def)
  have h2: "getitem ?p (feature ?self) = Inr ?v" by (simp add: getitem_def)
  have h3: "new_feature ?self = feature ?self" by simp
  have "\<exists>p'. RenameFeature_execute ?self ?p = Inr p'
          \<and> getitem p' (feature ?self) = Inl KeyError"
    using RenameFeature_same_name_loses_data [OF h1 h2 h3] by blast
  then show ?thesis by simp
qed

subsection \<open>Thresholding\<close>

lemma distinct_remdups_adj_sorted:
  "sorted xs \<Longrightarrow> distinct (remdups_adj xs)"
  by (induction xs rule: remdups_adj.induct) auto

lemma length_np_unique: "length (np_unique a) = card (set (items a))"
proof -
  have "distinct (remdups_adj (sort (items a)))"
    by (rule distinct_remdups_adj_sorted) simp
  then have "card (set (remdups_adj (sort (items a)))) = length (remdups_adj (sort (items a)))"
    by (rule distinct_card)
  then show ?thesis by (simp add: np_unique_def)
qed

text \<open>
  C2. For every 2-D NDWI array, \<open>detect_water\<close> returns the boolean mask, of the same
  shape, of the pixels strictly greater than a threshold: the Otsu threshold of the
  array when the array holds more than one distinct value, and 1.0 otherwise. So a
  constant array whose value is at most 1.0 gives a mask that is False everywhere.
\<close>

theorem detect_water_mask:
  assumes "shape ndwi = [h, w]" and "array_ok ndwi"
  shows "shape (detect_water threshold_otsu ndwi) = [h, w]
       \<and> array_ok (detect_water threshold_otsu ndwi)
       \<and> (\<forall>i < h. \<forall>j < w.
            items (detect_water threshold_otsu ndwi) ! (i * w + j)
              = (items ndwi ! (i * w + j)
                   > (if 1 < card (set (items ndwi)) then threshold_otsu ndwi else 1)))
       \<and> ((\<forall>x \<in> set (items ndwi). x = c) \<and> c \<le> 1
            \<longrightarrow> (\<forall>b \<in> set (items (detect_water threshold_otsu ndwi)). \<not> b))"
proof -
  let ?thr = "if 1 < card (set (items ndwi)) then threshold_otsu ndwi else 1"
  have dw: "detect_water threshold_otsu ndwi
              = \<lparr>shape = shape ndwi, items = map (\<lambda>x. x > ?thr) (items ndwi)\<rparr>"
    by (simp add: detect_water_def length_np_unique)
  have len: "length (items ndwi) = h * w"
    using assms by (simp add: array_ok_def)
  have a: "shape (detect_water threshold_otsu ndwi) = [h, w]"
    using dw assms(1) by simp
  have b: "array_ok (detect_water threshold_otsu ndwi)"
    using dw assms by (simp add: array_ok_def)
  have c: "\<forall>i < h. \<forall>j < w.
            items (detect_water threshold_otsu ndwi) ! (i * w + j)
              = (items ndwi ! (i * w + j) > ?thr)"
  proof (intro allI impI)
    fix i j assume i: "i < h" and j: "j < w"
    have "i * w + j < Suc i * w" using j by simp
    also have "\<dots> \<le> h * w" using i by (simp only: mult_le_mono1 Suc_leI)
    finally have "i * w + j < length (items ndwi)" using len by simp
    then show "items (detect_water threshold_otsu ndwi) ! (i * w + j)
              = (items ndwi ! (i * w + j) > ?thr)"
      by (simp add: dw)
  qed
  have d: "(\<forall>x \<in> set (items ndwi). x = c) \<and> c \<le> 1
            \<longrightarrow> (\<forall>b \<in> set (items (detect_water threshold_otsu ndwi)). \<not> b)"
  proof
    assume h: "(\<forall>x \<in> set (items ndwi). x = c) \<and> c \<le> 1"
    then have "set (items ndwi) \<subseteq> {c}" by blast
    then have "card (set (items ndwi)) \<le> card {c}"
      by (intro card_mono) simp_all
    then have "?thr = 1" by simp
    then show "\<forall>b \<in> set (items (detect_water threshold_otsu ndwi)). \<not> b"
      using h by (auto simp: dw)
  qed
  show ?thesis using a b c d by blast
qed

theorem detect_water_mask_witness:
  "shape \<lparr>shape = [1, 2], items = [1/2, 1/2 :: real]\<rparr> = [1, 2]
   \<and> array_ok \<lparr>shape = [1, 2], items = [1/2, 1/2 :: real]\<rparr>
   \<and> (0::nat) < 1 \<and> (1::nat) < 2
   \<and> shape (detect_water (\<lambda>a. 0) \<lparr>shape = [1, 2], items = [1/2, 1/2 :: real]\<rparr>) = [1, 2]
   \<and> items (detect_water (\<lambda>a. 0) \<lparr>shape = [1, 2], items = [1/2, 1/2 :: real]\<rparr>) ! (0 * 2 + 1)
       = False"
proof -
  let ?a = "\<lparr>shape = [1, 2], items = [1/2, 1/2 :: real]\<rparr>"
  let ?m = "detect_water (\<lambda>a. 0) ?a"
  have s: "shape ?a = [1, 2]" by simp
  have ok: "array_ok ?a" by (simp add: array_ok_def)
  note fact = detect_water_mask [OF s ok, of "\<lambda>a. 0" "1/2"]
  have sh: "shape ?m = [1, 2]" using fact by blast
  have "\<forall>i < 1. \<forall>j < 2. items ?m ! (i * 2 + j)
          = (items ?a ! (i * 2 + j) > (if 1 < card (set (items ?a)) then 0 else 1))"
    using fact by blast
  then have "items ?m ! (0 * 2 + 1)
          = (items ?a ! (0 * 2 + 1) > (if 1 < card (set (items ?a)) then 0 else 1))"
    by simp
  then have "items ?m ! (0 * 2 + 1) = False" by simp
  then show ?thesis using ok sh by simp
qed

subsection \<open>Cloud coverage filter\<close>



subsection \<open>Adding the coverage feature\<close>

lemma chunks_unfold:
  "chunks t n xs = (if t = 0 then [] else take n xs # chunks (t - 1) n (drop n xs))"
  by (cases t) simp_all

lemma length_chunks: "length (chunks t n xs) = t"
  by (induction t arbitrary: xs) simp_all

lemma nth_chunks: "i < t \<Longrightarrow> chunks t n xs ! i = take n (drop (i * n) xs)"
proof (induction t arbitrary: xs i)
  case 0
  then show ?case by simp
next
  case (Suc t)
  show ?case
  proof (cases i)
    case 0
    then show ?thesis by simp
  next
    case (Suc k)
    then have "k < t" using Suc.prems by simp
    then have "chunks t n (drop n xs) ! k = take n (drop (k * n) (drop n xs))"
      by (rule Suc.IH)
    then show ?thesis using Suc by (simp add: add.commute)
  qed
qed

lemma map_err_total:
  "(\<And>x. x \<in> set xs \<Longrightarrow> f x = Inr (g x)) \<Longrightarrow> map_err f xs = Inr (map g xs)"
  by (induction xs) simp_all

lemma apply_along_axis1_coverage:
  assumes "shape a = [t, n]" and "0 < t" and "0 < n"
  shows "apply_along_axis1 calculate_coverage a
           = Inr \<lparr>shape = [t],
                  items = map (\<lambda>row. 1 - real (count_nonzero \<lparr>shape = [n], items = row\<rparr>) / real n)
                            (chunks t n (items a))\<rparr>"
proof -
  have "map_err (\<lambda>row. calculate_coverage \<lparr>shape = [n], items = row\<rparr>) (chunks t n (items a))
          = Inr (map (\<lambda>row. 1 - real (count_nonzero \<lparr>shape = [n], items = row\<rparr>) / real n)
                   (chunks t n (items a)))"
    using assms(3)
    by (intro map_err_total)
       (simp add: calculate_coverage_def py_truediv_def bind_err_def np_size_def)
  then show ?thesis
    using assms(1,2) by (simp add: apply_along_axis1_def bind_err_def)
qed

lemma coverage_eq_calculate_coverage: "coverage = calculate_coverage"
  by (rule ext) (simp add: coverage_def calculate_coverage_def)

text \<open>
  C6, as the claim states it, fails at degenerate shapes and at a patch that already
  has a coverage feature: with no pixels per date the division in
  \<open>calculate_coverage\<close> raises \<open>ZeroDivisionError\<close>; with no dates
  \<open>np.apply_along_axis\<close> raises \<open>ValueError\<close>; and an existing \<open>SCALAR\<close> feature
  \<open>COVERAGE\<close> is replaced, not left unchanged.
\<close>

theorem AddValidDataCoverage_counterexample:
  "AddValidDataCoverage_execute
     \<lparr>features = [((MASK, ''VALID_DATA''), NdArray \<lparr>shape = [1, 0, 0, 1], items = []\<rparr>)],
      bbox = None, timestamp = []\<rparr> = Inl ZeroDivisionError
   \<and> AddValidDataCoverage_execute
     \<lparr>features = [((MASK, ''VALID_DATA''), NdArray \<lparr>shape = [0, 1, 1, 1], items = []\<rparr>)],
      bbox = None, timestamp = []\<rparr> = Inl ValueError
   \<and> AddValidDataCoverage_execute
     \<lparr>features = [((MASK, ''VALID_DATA''), NdArray \<lparr>shape = [1, 1, 1, 1], items = [1]\<rparr>),
                  ((SCALAR, ''COVERAGE''), NdArray \<lparr>shape = [1, 1], items = [5]\<rparr>)],
      bbox = None, timestamp = []\<rparr>
     = Inr \<lparr>features = [((MASK, ''VALID_DATA''), NdArray \<lparr>shape = [1, 1, 1, 1], items = [1]\<rparr>),
                  ((SCALAR, ''COVERAGE''), NdArray \<lparr>shape = [1, 1], items = [0]\<rparr>)],
      bbox = None, timestamp = []\<rparr>"
  by (simp add: AddValidDataCoverage_execute_def get_feature_def getitem_def the_array_def
      np_reshape_def np_size_def apply_along_axis1_def calculate_coverage_def py_truediv_def
      count_nonzero_def add_feature_def setitem_def newaxis_last_def ndim_def bind_err_def)

text \<open>
  The variant of the water-level notebook leaves the channel axis out of the new shape,
  so with two channels its reshape raises \<open>ValueError\<close>, where the workshop variant
  computes the coverage.
\<close>

lemma AddValidDataCoverage_water_level_two_channels:
  "AddValidDataCoverage_execute_water_level
     \<lparr>features = [((MASK, ''VALID_DATA''), NdArray \<lparr>shape = [1, 1, 1, 2], items = [1, 0]\<rparr>)],
      bbox = None, timestamp = []\<rparr> = Inl ValueError"
  by (simp add: AddValidDataCoverage_execute_water_level_def get_feature_def getitem_def
      the_array_def np_reshape_def np_size_def bind_err_def)

text \<open>
  C6, amended. For every EOPatch containing a \<open>MASK\<close> feature \<open>VALID_DATA\<close> of shape
  \<open>t x h x w x c\<close> with at least one date and at least one element per date,
  \<open>AddValidDataCoverage.execute\<close> sets the \<open>SCALAR\<close> feature \<open>COVERAGE\<close> to an array of
  shape \<open>t x 1\<close> whose entry for each date equals \<open>calculate_coverage\<close> of that date's
  flattened valid-data slice, and returns the EOPatch with every other feature, the
  bounding box and the timestamps unchanged. The variant of the water-level notebook
  does the same when the mask has one channel.
\<close>

theorem AddValidDataCoverage_adds_coverage:
  assumes "get_feature p MASK ''VALID_DATA'' = Inr (NdArray a)"
    and "shape a = [t, h, w, c]" and "array_ok a"
    and "0 < t" and "0 < h * w * c"
  shows "\<exists>cov p'. AddValidDataCoverage_execute p = Inr p'
          \<and> (c = 1 \<longrightarrow> AddValidDataCoverage_execute_water_level p = Inr p')
          \<and> get_feature p' SCALAR ''COVERAGE'' = Inr (NdArray cov)
          \<and> shape cov = [t, 1] \<and> array_ok cov
          \<and> (\<forall>i < t. calculate_coverage
                \<lparr>shape = [h * w * c],
                 items = take (h * w * c) (drop (i * (h * w * c)) (items a))\<rparr>
                  = Inr (items cov ! i))
          \<and> (\<forall>k. k \<noteq> (SCALAR, ''COVERAGE'') \<longrightarrow> getitem p' k = getitem p k)
          \<and> bbox p' = bbox p \<and> timestamp p' = timestamp p"
proof -
  let ?n = "h * w * c"
  let ?g = "\<lambda>row. 1 - real (count_nonzero \<lparr>shape = [?n], items = row\<rparr>) / real ?n"
  let ?cov1 = "\<lparr>shape = [t], items = map ?g (chunks t ?n (items a))\<rparr>"
  let ?cov = "newaxis_last ?cov1"
  let ?p' = "p\<lparr>features := AList.update (SCALAR, ''COVERAGE'') (NdArray ?cov) (features p)\<rparr>"
  have size: "np_size a = t * ?n"
    using assms(2) by (simp add: np_size_def)
  have flat: "np_reshape a [t, ?n] = Inr \<lparr>shape = [t, ?n], items = items a\<rparr>"
    using size by (simp add: np_reshape_def)
  have app: "apply_along_axis1 calculate_coverage \<lparr>shape = [t, ?n], items = items a\<rparr> = Inr ?cov1"
    using apply_along_axis1_coverage [of "\<lparr>shape = [t, ?n], items = items a\<rparr>" t ?n] assms(4,5)
    by simp
  have add: "add_feature p SCALAR ''COVERAGE'' (NdArray ?cov) = Inr ?p'"
    by (simp add: add_feature_def setitem_def newaxis_last_def ndim_def)
  have run: "AddValidDataCoverage_execute p = Inr ?p'"
    using assms(1,2) flat app add
    by (simp add: AddValidDataCoverage_execute_def the_array_def bind_err_def)
  have run_wl: "c = 1 \<longrightarrow> AddValidDataCoverage_execute_water_level p = Inr ?p'"
  proof
    assume c1: "c = 1"
    have "np_reshape a [t, h * w] = Inr \<lparr>shape = [t, ?n], items = items a\<rparr>"
      using flat c1 by simp
    then show "AddValidDataCoverage_execute_water_level p = Inr ?p'"
      using assms(1,2) app add c1
      by (simp add: AddValidDataCoverage_execute_water_level_def the_array_def bind_err_def
          coverage_eq_calculate_coverage)
  qed
  have get: "get_feature ?p' SCALAR ''COVERAGE'' = Inr (NdArray ?cov)"
    by (simp add: get_feature_def getitem_def update_conv')
  have sh: "shape ?cov = [t, 1]" by (simp add: newaxis_last_def)
  have ok: "array_ok ?cov" by (simp add: newaxis_last_def array_ok_def length_chunks)
  have entries: "\<forall>i < t. calculate_coverage
                \<lparr>shape = [?n], items = take ?n (drop (i * ?n) (items a))\<rparr> = Inr (items ?cov ! i)"
  proof (intro allI impI)
    fix i assume i: "i < t"
    have "items ?cov ! i = ?g (chunks t ?n (items a) ! i)"
      using i by (simp add: newaxis_last_def length_chunks)
    also have "\<dots> = ?g (take ?n (drop (i * ?n) (items a)))"
      using i by (simp only: nth_chunks)
    finally have "items ?cov ! i = ?g (take ?n (drop (i * ?n) (items a)))" .
    then show "calculate_coverage \<lparr>shape = [?n], items = take ?n (drop (i * ?n) (items a))\<rparr>
                 = Inr (items ?cov ! i)"
      using assms(5)
      by (simp add: calculate_coverage_def py_truediv_def bind_err_def np_size_def)
  qed
  have frame: "\<forall>k. k \<noteq> (SCALAR, ''COVERAGE'') \<longrightarrow> getitem ?p' k = getitem p k"
    by (simp add: getitem_def update_conv')
  have rest: "bbox ?p' = bbox p \<and> timestamp ?p' = timestamp p" by simp
  show ?thesis
    using run run_wl get sh ok entries frame rest by blast
qed

theorem AddValidDataCoverage_adds_coverage_witness:
  "\<exists>cov p'. AddValidDataCoverage_execute
        \<lparr>features = [((MASK, ''VALID_DATA''), NdArray \<lparr>shape = [2, 1, 2, 1], items = [1, 0, 1, 1]\<rparr>)],
         bbox = None, timestamp = []\<rparr> = Inr p'
      \<and> AddValidDataCoverage_execute_water_level
        \<lparr>features = [((MASK, ''VALID_DATA''), NdArray \<lparr>shape = [2, 1, 2, 1], items = [1, 0, 1, 1]\<rparr>)],
         bbox = None, timestamp = []\<rparr> = Inr p'
      \<and> get_feature p' SCALAR ''COVERAGE'' = Inr (NdArray cov)
      \<and> shape cov = [2, 1]
      \<and> calculate_coverage \<lparr>shape = [2], items = [1, 0]\<rparr> = Inr (items cov ! 0)"
proof -
  let ?a = "\<lparr>shape = [2, 1, 2, 1], items = [1, 0, 1, 1 :: real]\<rparr>"
  let ?p = "\<lparr>features = [((MASK, ''VALID_DATA''), NdArray ?a)], bbox = None, timestamp = []\<rparr>"
  have h1: "get_feature ?p MASK ''VALID_DATA'' = Inr (NdArray ?a)"
    by (simp add: get_feature_def getitem_def)
  have h2: "shape ?a = [2, 1, 2, 1]" by simp
  have h3: "array_ok ?a" by (simp add: array_ok_def)
  have h4: "(0::nat) < 2" by simp
  have h5: "(0::nat) < 1 * 2 * 1" by simp
  obtain cov p' where r: "AddValidDataCoverage_execute ?p = Inr p'"
      "(1::nat) = 1 \<longrightarrow> AddValidDataCoverage_execute_water_level ?p = Inr p'"
      "get_feature p' SCALAR ''COVERAGE'' = Inr (NdArray cov)"
      "shape cov = [2, 1]"
      "\<forall>i < 2. calculate_coverage
          \<lparr>shape = [1 * 2 * 1], items = take (1 * 2 * 1) (drop (i * (1 * 2 * 1)) (items ?a))\<rparr>
            = Inr (items cov ! i)"
    using AddValidDataCoverage_adds_coverage [OF h1 h2 h3 h4 h5] by blast
  have "calculate_coverage
          \<lparr>shape = [1 * 2 * 1], items = take (1 * 2 * 1) (drop (0 * (1 * 2 * 1)) (items ?a))\<rparr>
            = Inr (items cov ! 0)"
    using r(5) h4 by blast
  then have "calculate_coverage \<lparr>shape = [2], items = [1, 0]\<rparr> = Inr (items cov ! 0)"
    by simp
  then show ?thesis using r(1-4) by blast
qed

subsection \<open>Time lapse\<close>

lemma length_concat_blocks:
  "length (concat (map (\<lambda>q. map (f q) idx) [0..<m])) = m * length idx"
  by (induction m) simp_all

lemma nth_concat_blocks:
  "q < m \<Longrightarrow> r < length idx \<Longrightarrow>
     concat (map (\<lambda>q. map (f q) idx) [0..<m]) ! (q * length idx + r) = f q (idx ! r)"
proof (induction m)
  case 0
  then show ?case by simp
next
  case (Suc m)
  show ?case
  proof (cases "q < m")
    case True
    have "q * length idx + r < Suc q * length idx" using Suc.prems(2) by simp
    also have "\<dots> \<le> m * length idx" using True by (simp only: mult_le_mono1 Suc_leI)
    finally have "q * length idx + r < length (concat (map (\<lambda>q. map (f q) idx) [0..<m]))"
      by (simp only: length_concat_blocks)
    then show ?thesis using Suc.IH [OF True Suc.prems(2)] by (simp add: nth_append)
  next
    case False
    then have "q = m" using Suc.prems(1) by simp
    then show ?thesis using Suc.prems(2) by (simp add: nth_append length_concat_blocks)
  qed
qed

lemma nth_concat_blocks_len:
  "length idx = n \<Longrightarrow> q < m \<Longrightarrow> r < n \<Longrightarrow>
     concat (map (\<lambda>q. map (f q) idx) [0..<m]) ! (q * n + r) = f q (idx ! r)"
  using nth_concat_blocks [of q m r idx f] by blast

lemma to_uint8_clip:
  "to_uint8 (np_clip y 0 1 * 255) = nat \<lfloor>np_clip y 0 1 * 255\<rfloor>
   \<and> to_uint8 (np_clip y 0 1 * 255) \<le> 255"
proof -
  let ?z = "np_clip y 0 1 * 255"
  have lo: "0 \<le> ?z" by (simp add: np_clip_def)
  have hi: "?z \<le> 255" by (simp add: np_clip_def)
  have flo: "0 \<le> \<lfloor>?z\<rfloor>" using lo by simp
  have "\<lfloor>?z\<rfloor> \<le> \<lfloor>255::real\<rfloor>" using hi by (rule floor_mono)
  then have fhi: "\<lfloor>?z\<rfloor> \<le> 255" by simp
  have "to_uint8 ?z = nat (\<lfloor>?z\<rfloor> mod 256)" using lo by (simp add: to_uint8_def)
  also have "\<dots> = nat \<lfloor>?z\<rfloor>" using flo fhi by simp
  finally have eq: "to_uint8 ?z = nat \<lfloor>?z\<rfloor>" .
  have "nat \<lfloor>?z\<rfloor> \<le> 255" using fhi by linarith
  then show ?thesis using eq by simp
qed

lemma append_frames_total:
  "(\<And>img. img \<in> set images \<Longrightarrow> rgb_frame factor img = Inr (F img)) \<Longrightarrow>
   (\<And>img ws. img \<in> set images \<Longrightarrow> append_error writer ws (F img) = None) \<Longrightarrow>
     append_frames writer factor images written = (written @ map F images, None)"
  by (induction images arbitrary: written) simp_all

lemma rgb_frame_image:
  assumes "shape img = [h, w, c]" and "4 \<le> c"
  shows "rgb_frame factor img
           = Inr \<lparr>shape = [h, w, 3],
                  items = map (\<lambda>x. to_uint8 (np_clip (x * factor) 0 1 * 255))
                            (concat (map (\<lambda>q. map (\<lambda>i. items img ! (q * c + i)) [3, 2, 1])
                                       [0..<h * w]))\<rparr>"
  using assms by (simp add: rgb_frame_def take_channels_def bind_err_def Let_def)

lemma block_index_bound:
  fixes q r m n :: nat
  assumes "q < m" and "r < n"
  shows "q * n + r < m * n"
proof -
  have "q * n + r < Suc q * n" using assms(2) by simp
  also have "\<dots> \<le> m * n" using assms(1) by (simp only: mult_le_mono1 Suc_leI)
  finally show ?thesis .
qed

lemma TimeLapseTask_execute_returns_input:
  "snd (TimeLapseTask_execute writer self p) = Inr p' \<Longrightarrow> p' = p"
  by (auto simp: TimeLapseTask_execute_def Let_def split: sum.splits prod.splits option.splits)

text \<open>
  When the writer refuses to open, \<open>execute\<close> raises before it reads the EOPatch; when
  it refuses a frame or the closing, \<open>execute\<close> raises too. With the checking writer a
  frame rate of 0 gives \<open>ZeroDivisionError\<close> and bands without pixels give \<open>ValueError\<close>.
\<close>

lemma TimeLapseTask_writer_refuses_open:
  "open_error writer (os_path_join (project_dir self) (filename self)) (fps self) = Some e
     \<Longrightarrow> TimeLapseTask_execute writer self p = (None, Inl e)"
  by (simp add: TimeLapseTask_execute_def)

lemma TimeLapseTask_zero_frame_rate:
  "TimeLapseTask_execute checking_writer
     \<lparr>project_dir = ''out'', filename = ''t.gif'', fps = 0, brightness_factor = 3\<rparr> p
   = (None, Inl ZeroDivisionError)"
  by (simp add: TimeLapseTask_execute_def checking_writer_def)

lemma TimeLapseTask_frame_without_pixels:
  "TimeLapseTask_execute checking_writer
     \<lparr>project_dir = ''out'', filename = ''t.gif'', fps = 6, brightness_factor = 3\<rparr>
     \<lparr>features = [((DATA, ''BANDS-S2-L1C''), NdArray \<lparr>shape = [1, 0, 0, 4], items = []\<rparr>)],
      bbox = None, timestamp = []\<rparr>
   = (Some \<lparr>gif_path = ''out/t.gif'', gif_fps = 6, gif_frames = []\<rparr>, Inl ValueError)"
  by (simp add: TimeLapseTask_execute_def checking_writer_def getitem_def the_array_def
      subarrays_def rgb_frame_def take_channels_def bind_err_def os_path_join_def)

text \<open>
  C9, as the claim states it, fails: \<open>execute\<close> does not return for every EOPatch. On
  an EOPatch without the \<open>DATA\<close> feature \<open>BANDS-S2-L1C\<close> it raises \<open>KeyError\<close>, after the
  writer has opened the file, and returns nothing.
\<close>

theorem TimeLapseTask_missing_bands_counterexample:
  "TimeLapseTask_execute checking_writer
     \<lparr>project_dir = ''.'', filename = ''timelapse.gif'', fps = 5, brightness_factor = 1\<rparr>
     EOPatch_empty
   = (Some \<lparr>gif_path = ''./timelapse.gif'', gif_fps = 5, gif_frames = []\<rparr>, Inl KeyError)"
  by (simp add: TimeLapseTask_execute_def checking_writer_def EOPatch_empty_def getitem_def
      bind_err_def os_path_join_def)

text \<open>
  C9, amended. Take an EOPatch that holds a \<open>DATA\<close> feature \<open>BANDS-S2-L1C\<close> of float
  values, of shape \<open>t x h x w x c\<close> with at least four channels, and a GIF writer that
  opens the file at the frame rate of the task, accepts every frame of shape
  \<open>h x w x 3\<close> and closes after \<open>t\<close> frames (the writer of \<open>imageio\<close> refuses a frame
  rate of 0 and a frame without pixels). Then \<open>execute\<close> returns the input EOPatch, all
  of its features unchanged; its only effect is the GIF file, which receives one frame
  of shape \<open>h x w x 3\<close> per date. Every written value is the band 3, 2 or 1 of the pixel
  scaled by the brightness factor, clipped to the interval from 0 to 1, multiplied by
  255 and cut to an integer, which the cast to \<open>uint8\<close> keeps as it is: it lies between
  0 and 255.
\<close>

theorem TimeLapseTask_writes_frames:
  assumes "getitem p (DATA, ''BANDS-S2-L1C'') = Inr (NdArray a)"
    and "shape a = [t, h, w, c]" and "array_ok a" and "4 \<le> c"
    and opens: "open_error writer (os_path_join (project_dir self) (filename self)) (fps self) = None"
    and takes: "\<forall>written frame. shape frame = [h, w, 3] \<longrightarrow> append_error writer written frame = None"
    and closes: "\<forall>written. length written = t \<longrightarrow> close_error writer written = None"
  shows "\<exists>frames.
           TimeLapseTask_execute writer self p
             = (Some \<lparr>gif_path = os_path_join (project_dir self) (filename self),
                      gif_fps = fps self, gif_frames = frames\<rparr>, Inr p)
         \<and> length frames = t
         \<and> (\<forall>i < t. shape (frames ! i) = [h, w, 3]
              \<and> (\<forall>q < h * w. \<forall>r < 3.
                    items (frames ! i) ! (q * 3 + r)
                      = nat \<lfloor>np_clip (items a ! ((i * (h * w) + q) * c + [3, 2, 1] ! r)
                                         * brightness_factor self) 0 1 * 255\<rfloor>
                  \<and> items (frames ! i) ! (q * 3 + r) \<le> 255))"
proof -
  let ?bf = "brightness_factor self"
  let ?n = "h * (w * c)"
  let ?G = "\<lambda>x. to_uint8 (np_clip (x * ?bf) 0 1 * 255)"
  let ?pick = "\<lambda>img. concat (map (\<lambda>q. map (\<lambda>i. items img ! (q * c + i)) [3, 2, 1]) [0..<h * w])"
  let ?F = "\<lambda>img. \<lparr>shape = [h, w, 3], items = map ?G (?pick img)\<rparr>"
  let ?imgs = "map (\<lambda>xs. \<lparr>shape = [h, w, c], items = xs\<rparr>) (chunks t ?n (items a))"
  let ?frames = "map ?F ?imgs"
  have len_a: "length (items a) = t * ?n"
    using assms(2,3) by (simp add: array_ok_def)
  have sub: "subarrays a = Inr ?imgs"
    using assms(2) by (simp add: subarrays_def)
  have each: "\<And>img. img \<in> set ?imgs \<Longrightarrow> rgb_frame ?bf img = Inr (?F img)"
  proof -
    fix img :: "real ndarray" assume "img \<in> set ?imgs"
    then have "shape img = [h, w, c]" by auto
    then show "rgb_frame ?bf img = Inr (?F img)"
      using assms(4) by (rule rgb_frame_image)
  qed
  have loop: "append_frames writer ?bf ?imgs [] = ([] @ ?frames, None)"
  proof (rule append_frames_total [OF each])
    fix img :: "real ndarray" and ws :: "nat ndarray list"
    show "append_error writer ws (?F img) = None" using takes by simp
  qed
  have len: "length ?frames = t" by (simp add: length_chunks)
  have closed: "close_error writer ?frames = None" using closes len by blast
  have run: "TimeLapseTask_execute writer self p
             = (Some \<lparr>gif_path = os_path_join (project_dir self) (filename self),
                      gif_fps = fps self, gif_frames = ?frames\<rparr>, Inr p)"
    using assms(1) sub loop opens closed
    by (simp add: TimeLapseTask_execute_def the_array_def bind_err_def)
  have pixels: "\<forall>i < t. shape (?frames ! i) = [h, w, 3]
              \<and> (\<forall>q < h * w. \<forall>r < 3.
                    items (?frames ! i) ! (q * 3 + r)
                      = nat \<lfloor>np_clip (items a ! ((i * (h * w) + q) * c + [3, 2, 1] ! r) * ?bf) 0 1 * 255\<rfloor>
                  \<and> items (?frames ! i) ! (q * 3 + r) \<le> 255)"
  proof (intro allI impI conjI)
    fix i assume i: "i < t"
    let ?img = "\<lparr>shape = [h, w, c], items = take ?n (drop (i * ?n) (items a))\<rparr>"
    have fr: "?frames ! i = ?F ?img"
      using i by (simp add: length_chunks nth_chunks)
    show "shape (?frames ! i) = [h, w, 3]" using fr by simp
    fix q r :: nat assume q: "q < h * w" and r: "r < 3"
    let ?ch = "[3, 2, 1 :: nat] ! r"
    have ch: "?ch < c"
    proof -
      have "r = 0 \<or> r = 1 \<or> r = 2" using r by linarith
      then show ?thesis using assms(4) by auto
    qed
    have inblock: "q * c + ?ch < ?n"
      using block_index_bound [OF q ch] by (simp add: mult.assoc)
    have inarr: "i * ?n + (q * c + ?ch) < length (items a)"
      using block_index_bound [OF i inblock] len_a by simp
    have src: "items ?img ! (q * c + ?ch) = items a ! ((i * (h * w) + q) * c + ?ch)"
    proof -
      have "items ?img ! (q * c + ?ch) = items a ! (i * ?n + (q * c + ?ch))"
        using inblock inarr by simp
      also have "i * ?n + (q * c + ?ch) = (i * (h * w) + q) * c + ?ch"
        by (simp add: algebra_simps)
      finally show ?thesis .
    qed
    have lenpick: "length (?pick ?img) = h * w * 3"
      using length_concat_blocks [of "\<lambda>q i. items ?img ! (q * c + i)" "[3, 2, 1]" "h * w"]
      by simp
    have inpick: "q * 3 + r < length (?pick ?img)"
      using block_index_bound [OF q r] lenpick by simp
    have "length [3, 2, 1 :: nat] = 3" by simp
    then have "?pick ?img ! (q * 3 + r) = items ?img ! (q * c + ?ch)"
      using q r by (rule nth_concat_blocks_len)
    then have px: "items (?frames ! i) ! (q * 3 + r)
                 = ?G (items a ! ((i * (h * w) + q) * c + ?ch))"
      using fr inpick src by simp
    show "items (?frames ! i) ! (q * 3 + r)
            = nat \<lfloor>np_clip (items a ! ((i * (h * w) + q) * c + ?ch) * ?bf) 0 1 * 255\<rfloor>"
      by (subst px) (rule to_uint8_clip [THEN conjunct1])
    show "items (?frames ! i) ! (q * 3 + r) \<le> 255"
      by (subst px) (rule to_uint8_clip [THEN conjunct2])
  qed
  show ?thesis using run len pixels by blast
qed

theorem TimeLapseTask_writes_frames_witness:
  "\<exists>frames.
     TimeLapseTask_execute checking_writer
       \<lparr>project_dir = ''out'', filename = ''t.gif'', fps = 6, brightness_factor = 3\<rparr>
       \<lparr>features = [((DATA, ''BANDS-S2-L1C''),
                      NdArray \<lparr>shape = [1, 1, 1, 4], items = [0, 1/2, 1/10, 1/4]\<rparr>)],
        bbox = None, timestamp = []\<rparr>
     = (Some \<lparr>gif_path = ''out/t.gif'', gif_fps = 6, gif_frames = frames\<rparr>,
        Inr \<lparr>features = [((DATA, ''BANDS-S2-L1C''),
                      NdArray \<lparr>shape = [1, 1, 1, 4], items = [0, 1/2, 1/10, 1/4]\<rparr>)],
             bbox = None, timestamp = []\<rparr>)
   \<and> length frames = 1
   \<and> shape (frames ! 0) = [1, 1, 3]
   \<and> items (frames ! 0) ! (0 * 3 + 0) = 191"
proof -
  let ?a = "\<lparr>shape = [1, 1, 1, 4], items = [0, 1/2, 1/10, 1/4 :: real]\<rparr>"
  let ?p = "\<lparr>features = [((DATA, ''BANDS-S2-L1C''), NdArray ?a)], bbox = None, timestamp = []\<rparr>"
  let ?self = "\<lparr>project_dir = ''out'', filename = ''t.gif'', fps = 6, brightness_factor = 3\<rparr>"
  have h1: "getitem ?p (DATA, ''BANDS-S2-L1C'') = Inr (NdArray ?a)" by (simp add: getitem_def)
  have h2: "shape ?a = [1, 1, 1, 4]" by simp
  have h3: "array_ok ?a" by (simp add: array_ok_def)
  have h4: "(4::nat) \<le> 4" by simp
  have h5: "open_error checking_writer (os_path_join (project_dir ?self) (filename ?self)) (fps ?self)
              = None"
    by (simp add: checking_writer_def)
  have h6: "\<forall>written frame. shape frame = [1, 1, 3]
              \<longrightarrow> append_error checking_writer written frame = None"
    by (simp add: checking_writer_def)
  have h7: "\<forall>written. length written = 1 \<longrightarrow> close_error checking_writer written = None"
    by (simp add: checking_writer_def)
  obtain frames where r:
      "TimeLapseTask_execute checking_writer ?self ?p
         = (Some \<lparr>gif_path = os_path_join (project_dir ?self) (filename ?self),
                  gif_fps = fps ?self, gif_frames = frames\<rparr>, Inr ?p)"
      "length frames = 1"
      "\<forall>i < 1. shape (frames ! i) = [1, 1, 3]
          \<and> (\<forall>q < 1 * 1. \<forall>r < 3.
                items (frames ! i) ! (q * 3 + r)
                  = nat \<lfloor>np_clip (items ?a ! ((i * (1 * 1) + q) * 4 + [3, 2, 1] ! r)
                                     * brightness_factor ?self) 0 1 * 255\<rfloor>
              \<and> items (frames ! i) ! (q * 3 + r) \<le> 255)"
    using TimeLapseTask_writes_frames [OF h1 h2 h3 h4 h5 h6 h7] by blast
  have path: "os_path_join (project_dir ?self) (filename ?self) = ''out/t.gif''"
    by (simp add: os_path_join_def)
  have f0: "shape (frames ! 0) = [1, 1, 3]
          \<and> (\<forall>q < 1 * 1. \<forall>r < 3.
                items (frames ! 0) ! (q * 3 + r)
                  = nat \<lfloor>np_clip (items ?a ! ((0 * (1 * 1) + q) * 4 + [3, 2, 1] ! r)
                                     * brightness_factor ?self) 0 1 * 255\<rfloor>
              \<and> items (frames ! 0) ! (q * 3 + r) \<le> 255)"
    using r(3) by blast
  then have "items (frames ! 0) ! (0 * 3 + 0)
                  = nat \<lfloor>np_clip (items ?a ! ((0 * (1 * 1) + 0) * 4 + [3, 2, 1] ! 0)
                                     * brightness_factor ?self) 0 1 * 255\<rfloor>"
    by simp
  also have "\<dots> = 191" by (simp add: np_clip_def)
  finally have px: "items (frames ! 0) ! (0 * 3 + 0) = 191" .
  show ?thesis using r(1,2) path f0 px by auto
qed

subsection \<open>Water level\<close>

lemma ravel_clamped_unravel:
  "j < prod_list s \<Longrightarrow>
     ravel s (map2 (\<lambda>d i. if d = 1 then 0 else i) s (unravel s j)) = j"
proof (induction s arbitrary: j)
  case Nil
  then show ?case by simp
next
  case (Cons d ds)
  let ?P = "prod_list ds"
  have jlt: "j < d * ?P" using Cons.prems by simp
  then have Ppos: "0 < ?P" by (cases "?P = 0") simp_all
  have "j mod ?P < ?P" using Ppos by simp
  then have IH: "ravel ds (map2 (\<lambda>d i. if d = 1 then 0 else i) ds (unravel ds (j mod ?P))) = j mod ?P"
    by (rule Cons.IH)
  have head: "(if d = 1 then 0 else j div ?P) = j div ?P"
    using jlt by (cases "d = 1") simp_all
  have "ravel (d # ds) (map2 (\<lambda>d i. if d = 1 then 0 else i) (d # ds) (unravel (d # ds) j))
          = (if d = 1 then 0 else j div ?P) * ?P + j mod ?P"
    using IH by simp
  also have "\<dots> = j div ?P * ?P + j mod ?P" by (simp only: head)
  also have "\<dots> = j" by simp
  finally show ?case .
qed

lemma nominal_position:
  assumes "j < prod_list s"
  shows "broadcast_index (1 # s) (unravel (t # s) (i * prod_list s + j)) = j"
proof -
  have m: "(i * prod_list s + j) mod prod_list s = j" using assms by simp
  have "broadcast_index (1 # s) (unravel (t # s) (i * prod_list s + j))
          = ravel s (map2 (\<lambda>d i. if d = 1 then 0 else i) s (unravel s j))"
    using assms by (simp add: broadcast_index_def)
  then show ?thesis using ravel_clamped_unravel [OF assms] by simp
qed

lemma take_drop_map_upt:
  assumes "i < t"
  shows "take F (drop (i * F) (map g [0..<t * F])) = map (\<lambda>j. g (i * F + j)) [0..<F]"
proof -
  have le: "i * F + F \<le> t * F"
  proof -
    have "Suc i * F \<le> t * F" using assms by (simp only: mult_le_mono1 Suc_leI)
    then show ?thesis by (simp add: add.commute)
  qed
  have "take F (drop (i * F) (map g [0..<t * F])) = map g (take F (drop (i * F) [0..<t * F]))"
    by (simp add: take_map drop_map)
  also have "take F (drop (i * F) [0..<t * F]) = [i * F..<i * F + F]"
    using le by (simp add: take_upt)
  also have "[i * F..<i * F + F] = map (\<lambda>j. i * F + j) [0..<F]"
    using map_add_upt [of "i * F" F] by (simp add: add.commute)
  finally show ?thesis by (simp add: comp_def)
qed

lemma length_filter_mono:
  "(\<And>x. x \<in> set xs \<Longrightarrow> P x \<Longrightarrow> Q x) \<Longrightarrow> length (filter P xs) \<le> length (filter Q xs)"
  by (induction xs) auto

lemma count_nonzero_product:
  fixes xs :: "real list"
  shows "length (filter (\<lambda>x. x \<noteq> 0) (map (\<lambda>j. u j * xs ! j) [0..<length xs]))
           \<le> length (filter (\<lambda>x. x \<noteq> 0) xs)"
proof -
  have "length (filter (\<lambda>x. x \<noteq> 0) (map (\<lambda>j. u j * xs ! j) [0..<length xs]))
          = length (filter (\<lambda>j. u j * xs ! j \<noteq> 0) [0..<length xs])"
    by (simp add: filter_map comp_def)
  also have "\<dots> \<le> length (filter (\<lambda>j. xs ! j \<noteq> 0) [0..<length xs])"
    by (rule length_filter_mono) simp
  also have "\<dots> = length (filter (\<lambda>x. x \<noteq> 0) (map (\<lambda>j. xs ! j) [0..<length xs]))"
    by (simp add: filter_map comp_def)
  also have "\<dots> = length (filter (\<lambda>x. x \<noteq> 0) xs)"
    by (simp only: map_nth)
  finally show ?thesis .
qed

lemma broadcast_water_shapes:
  "broadcast_shapes [t, h, w, 1] [h, w, d] = Some [t, h, w, d]"
  by (auto simp: broadcast_shapes_def pad_shape_def Let_def)

lemma map_err_first_fails:
  "xs \<noteq> [] \<Longrightarrow> (\<And>x. f x = Inl e) \<Longrightarrow> map_err f xs = Inl e"
  by (cases xs) simp_all

lemma shape_np_stack:
  "as \<noteq> [] \<Longrightarrow> (\<And>a. a \<in> set as \<Longrightarrow> shape a = s) \<Longrightarrow> shape (np_stack as) = length as # s"
  by (cases as) (simp_all add: np_stack_def)

text \<open>Multiplying the stacked water masks with the nominal mask, date by date.\<close>

lemma water_masks_within_nominal:
  assumes "shape wm = [t, h, w, 1]" and "shape m = [h, w, d]" and "array_ok m"
  shows "\<exists>prd per_date.
           np_multiply wm m = Inr prd \<and> shape prd = [t, h, w, d]
         \<and> subarrays prd = Inr per_date \<and> length per_date = t
         \<and> (\<forall>mask \<in> set per_date. count_nonzero mask \<le> count_nonzero m)"
proof -
  let ?F = "h * (w * d)"
  let ?s = "[t, h, w, d]"
  let ?g = "\<lambda>k. items wm ! broadcast_index [t, h, w, 1] (unravel ?s k)
                 * items m ! broadcast_index [1, h, w, d] (unravel ?s k)"
  let ?prd = "\<lparr>shape = ?s, items = map ?g [0..<t * ?F]\<rparr>"
  let ?per = "map (\<lambda>xs. \<lparr>shape = [h, w, d], items = xs\<rparr>) (chunks t ?F (items ?prd))"
  have lenm: "length (items m) = ?F"
    using assms(2,3) by (simp add: array_ok_def)
  have bs: "broadcast_shapes (shape wm) (shape m) = Some ?s"
    by (simp only: assms(1,2) broadcast_water_shapes)
  have mul: "np_multiply wm m = Inr ?prd"
    unfolding np_multiply_def bs by (simp add: assms(1,2) pad_shape_def)
  have sub: "subarrays ?prd = Inr ?per"
    by (simp add: subarrays_def)
  have len: "length ?per = t" by (simp add: length_chunks)
  have pl: "prod_list [h, w, d] = ?F" by simp
  note nom = nominal_position [of _ "[h, w, d]", unfolded pl]
  have each: "count_nonzero (?per ! i) \<le> count_nonzero m" if i: "i < t" for i
  proof -
    let ?u = "\<lambda>j. items wm ! broadcast_index [t, h, w, 1] (unravel ?s (i * ?F + j))"
    have "?per ! i = \<lparr>shape = [h, w, d], items = chunks t ?F (items ?prd) ! i\<rparr>"
      using i by (simp only: nth_map length_chunks)
    then have "items (?per ! i) = chunks t ?F (items ?prd) ! i" by simp
    also have "\<dots> = take ?F (drop (i * ?F) (items ?prd))"
      using i by (rule nth_chunks)
    also have "\<dots> = take ?F (drop (i * ?F) (map ?g [0..<t * ?F]))" by simp
    also have "\<dots> = map (\<lambda>j. ?g (i * ?F + j)) [0..<?F]"
      using i by (rule take_drop_map_upt)
    also have "\<dots> = map (\<lambda>j. ?u j * items m ! j) [0..<?F]"
    proof (rule map_cong [OF refl])
      fix j assume "j \<in> set [0..<?F]"
      then have "j < ?F" by simp
      then have "broadcast_index [1, h, w, d] (unravel ?s (i * ?F + j)) = j"
        by (rule nom)
      then show "?g (i * ?F + j) = ?u j * items m ! j" by (simp only:)
    qed
    finally have "items (?per ! i) = map (\<lambda>j. ?u j * items m ! j) [0..<length (items m)]"
      by (simp only: lenm)
    then have "count_nonzero (?per ! i)
                 = length (filter (\<lambda>x. x \<noteq> 0) (map (\<lambda>j. ?u j * items m ! j) [0..<length (items m)]))"
      by (simp only: count_nonzero_def)
    also have "\<dots> \<le> length (filter (\<lambda>x. x \<noteq> 0) (items m))"
      by (rule count_nonzero_product)
    finally show ?thesis by (simp only: count_nonzero_def)
  qed
  have bound: "\<forall>mask \<in> set ?per. count_nonzero mask \<le> count_nonzero m"
  proof
    fix mask assume "mask \<in> set ?per"
    then obtain i where "i < length ?per" and "?per ! i = mask"
      unfolding in_set_conv_nth by blast
    then show "count_nonzero mask \<le> count_nonzero m"
      using each [of i] len by simp
  qed
  have "np_multiply wm m = Inr ?prd \<and> shape ?prd = [t, h, w, d]
         \<and> subarrays ?prd = Inr ?per \<and> length ?per = t
         \<and> (\<forall>mask \<in> set ?per. count_nonzero mask \<le> count_nonzero m)"
    using mul sub len bound by simp
  then show ?thesis by blast
qed

lemma bind_err_Inr: "bind_err (Inr x) f = f x"
  by (simp add: bind_err_def)

lemma bind_err_Inl: "bind_err (Inl e) f = Inl e"
  by (simp add: bind_err_def)

lemma length_broadcast_no_dates:
  "broadcast_shapes [0, 1] [h, w, d] = Some s \<Longrightarrow> length s = 3"
  by (auto simp: broadcast_shapes_def pad_shape_def Let_def split: if_splits)

lemma WaterDetector_no_dates:
  assumes "getitem p (DATA, ''NDWI'') = Inr (NdArray a)"
    and "shape a = 0 # rest"
    and "getitem p (MASK_TIMELESS, ''NOMINAL_WATER'') = Inr (NdArray m)"
    and "shape m = [h, w, d]"
  shows "\<exists>e. WaterDetector_execute threshold_otsu p = Inl e"
proof -
  let ?wm = "newaxis_last (np_stack (map bool_array []))"
  have sub: "subarrays a = Inr []" using assms(2) by (simp add: subarrays_def)
  have shw: "shape ?wm = [0, 1]" by (simp add: newaxis_last_def np_stack_def)
  have start: "WaterDetector_execute threshold_otsu p
      = bind_err (np_multiply ?wm m) (\<lambda>water_masks'.
        bind_err (subarrays water_masks') (\<lambda>per_date.
        bind_err (map_err (\<lambda>mask. py_truediv (count_nonzero mask) (count_nonzero m)) per_date)
          (\<lambda>levels.
        bind_err (add_feature p MASK ''WATER_MASK'' (NdArray water_masks')) (\<lambda>eopatch1.
        bind_err (add_feature eopatch1 SCALAR ''WATER_LEVEL''
                    (NdArray (newaxis_last \<lparr>shape = [length levels], items = levels\<rparr>)))
          (\<lambda>eopatch2. Inr eopatch2)))))"
    unfolding WaterDetector_execute_def
    by (simp only: assms(1,3) the_array_def fvalue.case sub map_err.simps Let_def bind_err_Inr)
  show ?thesis
  proof (cases "np_multiply ?wm m")
    case (Inl e)
    then show ?thesis using start by (simp add: bind_err_Inl)
  next
    case (Inr prd)
    then have "ndim prd = 3"
      using shw assms(4) length_broadcast_no_dates [of h w d]
      by (auto simp: np_multiply_def ndim_def Let_def split: option.splits)
    then have "add_feature p MASK ''WATER_MASK'' (NdArray prd) = Inl ValueError"
      by (simp add: add_feature_def setitem_def)
    then show ?thesis
      using start Inr by (simp add: bind_err_def split: sum.splits)
  qed
qed

lemma WaterDetector_no_channel:
  assumes "getitem p (DATA, ''NDWI'') = Inr (NdArray a)"
    and "shape a = [t, h, w, 0]" and "0 < t"
  shows "WaterDetector_execute threshold_otsu p = Inl IndexError"
proof -
  obtain k where t: "t = Suc k" using assms(3) by (cases t) simp_all
  have sub: "subarrays a
      = Inr (map (\<lambda>xs. \<lparr>shape = [h, w, 0], items = xs\<rparr>) (chunks (Suc k) (prod_list [h, w, 0]) (items a)))"
    using assms(2) t by (simp add: subarrays_def)
  have "map_err (\<lambda>ndwi. bind_err (take_channel 0 ndwi)
                             (\<lambda>band. Inr (detect_water threshold_otsu band)))
          (map (\<lambda>xs. \<lparr>shape = [h, w, 0], items = xs\<rparr>) (chunks (Suc k) (prod_list [h, w, 0]) (items a)))
        = Inl IndexError"
    by (simp add: take_channel_def bind_err_def)
  then show ?thesis
    unfolding WaterDetector_execute_def
    by (simp only: assms(1) the_array_def fvalue.case sub bind_err_Inr bind_err_Inl)
qed

lemma WaterDetector_regular:
  assumes ndwi: "getitem p (DATA, ''NDWI'') = Inr (NdArray a)"
    and sa: "shape a = [t, h, w, c]"
    and nominal: "getitem p (MASK_TIMELESS, ''NOMINAL_WATER'') = Inr (NdArray m)"
    and sm: "shape m = [h, w, d]" and okm: "array_ok m"
    and t: "0 < t" and c: "0 < c"
  shows "(0 < count_nonzero m \<longrightarrow>
            (\<exists>p' wl. WaterDetector_execute threshold_otsu p = Inr p'
               \<and> getitem p' (SCALAR, ''WATER_LEVEL'') = Inr (NdArray wl)
               \<and> shape wl = [t, 1] \<and> length (items wl) = t
               \<and> (\<forall>x \<in> set (items wl). 0 \<le> x \<and> x \<le> 1)))
       \<and> (count_nonzero m = 0 \<longrightarrow>
            WaterDetector_execute threshold_otsu p = Inl ZeroDivisionError)"
proof -
  let ?imgs = "map (\<lambda>xs. \<lparr>shape = [h, w, c], items = xs\<rparr>) (chunks t (prod_list [h, w, c]) (items a))"
  let ?f = "\<lambda>ndwi. bind_err (take_channel 0 ndwi) (\<lambda>band. Inr (detect_water threshold_otsu band))"
  let ?B = "\<lambda>img. detect_water threshold_otsu
              \<lparr>shape = [h, w], items = map (\<lambda>q. items img ! (q * c + 0)) [0..<prod_list [h, w]]\<rparr>"
  let ?W = "np_stack (map bool_array (map ?B ?imgs))"
  have sub: "subarrays a = Inr ?imgs"
    using sa by (simp add: subarrays_def)
  have masks: "map_err ?f ?imgs = Inr (map ?B ?imgs)"
  proof (rule map_err_total)
    fix img :: "real ndarray" assume "img \<in> set ?imgs"
    then have "shape img = [h, w, c]" by auto
    then show "?f img = Inr (?B img)"
      using c by (simp add: take_channel_def bind_err_def)
  qed
  have "shape ?W = length (map bool_array (map ?B ?imgs)) # [h, w]"
  proof (rule shape_np_stack)
    show "map bool_array (map ?B ?imgs) \<noteq> []"
      using t by (simp add: length_chunks flip: length_0_conv)
    fix b assume "b \<in> set (map bool_array (map ?B ?imgs))"
    then show "shape b = [h, w]" by (auto simp: bool_array_def detect_water_def Let_def)
  qed
  then have "shape ?W = [t, h, w]" by (simp add: length_chunks)
  then have sw: "shape (newaxis_last ?W) = [t, h, w, 1]" by (simp add: newaxis_last_def)
  obtain prd per_date where mul: "np_multiply (newaxis_last ?W) m = Inr prd"
    and sprd: "shape prd = [t, h, w, d]"
    and per: "subarrays prd = Inr per_date" and lper: "length per_date = t"
    and bound: "\<forall>mask \<in> set per_date. count_nonzero mask \<le> count_nonzero m"
    using water_masks_within_nominal [OF sw sm okm] by blast
  let ?g = "\<lambda>mask. py_truediv (count_nonzero mask) (count_nonzero m)"
  have start: "WaterDetector_execute threshold_otsu p
      = bind_err (map_err ?g per_date) (\<lambda>levels.
        bind_err (add_feature p MASK ''WATER_MASK'' (NdArray prd)) (\<lambda>eopatch1.
        bind_err (add_feature eopatch1 SCALAR ''WATER_LEVEL''
                    (NdArray (newaxis_last \<lparr>shape = [length levels], items = levels\<rparr>)))
          (\<lambda>eopatch2. Inr eopatch2)))"
    unfolding WaterDetector_execute_def
    by (simp only: ndwi nominal the_array_def fvalue.case sub masks Let_def mul per bind_err_Inr)
  have zero: "count_nonzero m = 0 \<longrightarrow> WaterDetector_execute threshold_otsu p = Inl ZeroDivisionError"
  proof
    assume z: "count_nonzero m = 0"
    have "per_date \<noteq> []" using lper t by auto
    then have "map_err ?g per_date = Inl ZeroDivisionError"
      by (rule map_err_first_fails) (simp add: py_truediv_def z)
    then show "WaterDetector_execute threshold_otsu p = Inl ZeroDivisionError"
      by (simp only: start bind_err_Inl)
  qed
  have pos: "0 < count_nonzero m \<longrightarrow>
            (\<exists>p' wl. WaterDetector_execute threshold_otsu p = Inr p'
               \<and> getitem p' (SCALAR, ''WATER_LEVEL'') = Inr (NdArray wl)
               \<and> shape wl = [t, 1] \<and> length (items wl) = t
               \<and> (\<forall>x \<in> set (items wl). 0 \<le> x \<and> x \<le> 1))"
  proof
    assume nz: "0 < count_nonzero m"
    let ?lv = "map (\<lambda>mask. real (count_nonzero mask) / real (count_nonzero m)) per_date"
    let ?wl = "newaxis_last \<lparr>shape = [length ?lv], items = ?lv\<rparr>"
    have levels: "map_err ?g per_date = Inr ?lv"
      using nz by (intro map_err_total) (simp add: py_truediv_def)
    obtain p1 where add1: "add_feature p MASK ''WATER_MASK'' (NdArray prd) = Inr p1"
      using sprd by (simp add: add_feature_def setitem_def ndim_def)
    obtain p2 where add2: "add_feature p1 SCALAR ''WATER_LEVEL'' (NdArray ?wl) = Inr p2"
      by (simp add: add_feature_def setitem_def ndim_def newaxis_last_def)
    have run: "WaterDetector_execute threshold_otsu p = Inr p2"
      by (simp only: start levels add1 add2 bind_err_Inr)
    have get: "getitem p2 (SCALAR, ''WATER_LEVEL'') = Inr (NdArray ?wl)"
      using getitem_setitem [of p1 "(SCALAR, ''WATER_LEVEL'')" "NdArray ?wl" p2 "(SCALAR, ''WATER_LEVEL'')"]
        add2 by (simp add: add_feature_def)
    have shp: "shape ?wl = [t, 1] \<and> length (items ?wl) = t"
      using lper by (simp add: newaxis_last_def)
    have rng: "\<forall>x \<in> set (items ?wl). 0 \<le> x \<and> x \<le> 1"
    proof
      fix x assume "x \<in> set (items ?wl)"
      then obtain mask where mk: "mask \<in> set per_date"
        and x: "x = real (count_nonzero mask) / real (count_nonzero m)"
        by (auto simp: newaxis_last_def)
      have "count_nonzero mask \<le> count_nonzero m" using bound mk by blast
      then show "0 \<le> x \<and> x \<le> 1" using nz x by simp
    qed
    show "\<exists>p' wl. WaterDetector_execute threshold_otsu p = Inr p'
               \<and> getitem p' (SCALAR, ''WATER_LEVEL'') = Inr (NdArray wl)
               \<and> shape wl = [t, 1] \<and> length (items wl) = t
               \<and> (\<forall>x \<in> set (items wl). 0 \<le> x \<and> x \<le> 1)"
      using run get shp rng by blast
  qed
  show ?thesis using pos zero by blast
qed

text \<open>
  C4, as the claim states it, fails. The container checks the number of dimensions of
  a feature, not that two features share a grid, and the multiplication broadcasts: on
  an EOPatch whose \<open>NDWI\<close> raster has two pixels and whose nominal mask has one pixel,
  non-zero, the one nominal pixel is spread over both water pixels, the per-date mask
  has two non-zero pixels, and the stored water level is 2.
\<close>

theorem WaterDetector_grid_counterexample:
  "eopatch_ok
     \<lparr>features = [((DATA, ''NDWI''), NdArray \<lparr>shape = [1, 2, 1, 1], items = [2, 2]\<rparr>),
                  ((MASK_TIMELESS, ''NOMINAL_WATER''), NdArray \<lparr>shape = [1, 1, 1], items = [1]\<rparr>)],
      bbox = None, timestamp = []\<rparr>
   \<and> count_nonzero \<lparr>shape = [1, 1, 1], items = [1]\<rparr> = 1
   \<and> WaterDetector_execute (\<lambda>a. 1)
     \<lparr>features = [((DATA, ''NDWI''), NdArray \<lparr>shape = [1, 2, 1, 1], items = [2, 2]\<rparr>),
                  ((MASK_TIMELESS, ''NOMINAL_WATER''), NdArray \<lparr>shape = [1, 1, 1], items = [1]\<rparr>)],
      bbox = None, timestamp = []\<rparr>
     = Inr \<lparr>features = [((DATA, ''NDWI''), NdArray \<lparr>shape = [1, 2, 1, 1], items = [2, 2]\<rparr>),
                  ((MASK_TIMELESS, ''NOMINAL_WATER''), NdArray \<lparr>shape = [1, 1, 1], items = [1]\<rparr>),
                  ((MASK, ''WATER_MASK''), NdArray \<lparr>shape = [1, 2, 1, 1], items = [1, 1]\<rparr>),
                  ((SCALAR, ''WATER_LEVEL''), NdArray \<lparr>shape = [1, 1], items = [2]\<rparr>)],
      bbox = None, timestamp = []\<rparr>
   \<and> \<not> (2::real) \<le> 1"
proof -
  let ?p = "\<lparr>features = [((DATA, ''NDWI''), NdArray \<lparr>shape = [1, 2, 1, 1], items = [2, 2]\<rparr>),
                  ((MASK_TIMELESS, ''NOMINAL_WATER''), NdArray \<lparr>shape = [1, 1, 1], items = [1]\<rparr>)],
      bbox = None, timestamp = []\<rparr>"
  have ok: "eopatch_ok ?p"
    by (simp add: eopatch_ok_def value_ok_def array_ok_def ndim_def)
  have cnt: "count_nonzero \<lparr>shape = [1, 1, 1], items = [1]\<rparr> = 1"
    by (simp add: count_nonzero_def)
  have run: "WaterDetector_execute (\<lambda>a. 1) ?p
     = Inr \<lparr>features = [((DATA, ''NDWI''), NdArray \<lparr>shape = [1, 2, 1, 1], items = [2, 2]\<rparr>),
                  ((MASK_TIMELESS, ''NOMINAL_WATER''), NdArray \<lparr>shape = [1, 1, 1], items = [1]\<rparr>),
                  ((MASK, ''WATER_MASK''), NdArray \<lparr>shape = [1, 2, 1, 1], items = [1, 1]\<rparr>),
                  ((SCALAR, ''WATER_LEVEL''), NdArray \<lparr>shape = [1, 1], items = [2]\<rparr>)],
      bbox = None, timestamp = []\<rparr>"
    by code_simp
  show ?thesis using ok cnt run by simp
qed

text \<open>
  C4, amended. Take an EOPatch whose \<open>DATA\<close> feature \<open>NDWI\<close> (shape \<open>t x h x w x c\<close>) and
  \<open>MASK_TIMELESS\<close> feature \<open>NOMINAL_WATER\<close> (shape \<open>h x w x d\<close>) have the same height and
  width. If the nominal mask has a non-zero pixel, every value that
  \<open>WaterDetector.execute\<close> stores in the \<open>SCALAR\<close> feature \<open>WATER_LEVEL\<close> lies between 0
  and 1: each per-date water mask is multiplied with the nominal mask, so it has no more
  non-zero pixels than the nominal mask, whose count it is divided by. With at least
  one date and one channel the task does return and stores one level per date. If the
  nominal mask is zero everywhere the denominator is zero and the division raises
  \<open>ZeroDivisionError\<close>. Without a date or without a channel the task raises and
  stores nothing.
\<close>

theorem WaterDetector_water_level_in_unit_interval:
  assumes "getitem p (DATA, ''NDWI'') = Inr (NdArray a)"
    and "shape a = [t, h, w, c]"
    and "getitem p (MASK_TIMELESS, ''NOMINAL_WATER'') = Inr (NdArray m)"
    and "shape m = [h, w, d]" and "array_ok m"
  shows "(0 < t \<and> 0 < c \<and> 0 < count_nonzero m \<longrightarrow>
            (\<exists>p' wl. WaterDetector_execute threshold_otsu p = Inr p'
               \<and> getitem p' (SCALAR, ''WATER_LEVEL'') = Inr (NdArray wl)
               \<and> shape wl = [t, 1] \<and> length (items wl) = t
               \<and> (\<forall>x \<in> set (items wl). 0 \<le> x \<and> x \<le> 1)))
       \<and> (0 < t \<and> 0 < c \<and> count_nonzero m = 0 \<longrightarrow>
            WaterDetector_execute threshold_otsu p = Inl ZeroDivisionError)
       \<and> (t = 0 \<or> c = 0 \<longrightarrow> (\<exists>e. WaterDetector_execute threshold_otsu p = Inl e))"
proof -
  have regular: "0 < t \<and> 0 < c \<longrightarrow>
       (0 < count_nonzero m \<longrightarrow>
            (\<exists>p' wl. WaterDetector_execute threshold_otsu p = Inr p'
               \<and> getitem p' (SCALAR, ''WATER_LEVEL'') = Inr (NdArray wl)
               \<and> shape wl = [t, 1] \<and> length (items wl) = t
               \<and> (\<forall>x \<in> set (items wl). 0 \<le> x \<and> x \<le> 1)))
       \<and> (count_nonzero m = 0 \<longrightarrow>
            WaterDetector_execute threshold_otsu p = Inl ZeroDivisionError)"
    using WaterDetector_regular [OF assms(1,2,3,4,5)] by blast
  have degenerate: "t = 0 \<or> c = 0 \<longrightarrow> (\<exists>e. WaterDetector_execute threshold_otsu p = Inl e)"
  proof
    assume "t = 0 \<or> c = 0"
    then consider "t = 0" | "0 < t" and "c = 0" by auto
    then show "\<exists>e. WaterDetector_execute threshold_otsu p = Inl e"
    proof cases
      case 1
      then have "shape a = 0 # [h, w, c]" using assms(2) by simp
      then show ?thesis using WaterDetector_no_dates [OF assms(1) _ assms(3,4)] by blast
    next
      case 2
      then have "shape a = [t, h, w, 0]" using assms(2) by simp
      then show ?thesis using WaterDetector_no_channel [OF assms(1) _ 2(1)] by blast
    qed
  qed
  show ?thesis using regular degenerate by blast
qed

theorem WaterDetector_water_level_in_unit_interval_witness:
  "shape \<lparr>shape = [2, 1, 2, 1], items = [2, 0, 2, 2 :: real]\<rparr> = [2, 1, 2, 1]
   \<and> shape \<lparr>shape = [1, 2, 1], items = [1, 1 :: real]\<rparr> = [1, 2, 1]
   \<and> array_ok \<lparr>shape = [1, 2, 1], items = [1, 1 :: real]\<rparr>
   \<and> 0 < count_nonzero \<lparr>shape = [1, 2, 1], items = [1, 1 :: real]\<rparr>
   \<and> (\<exists>p' wl. WaterDetector_execute (\<lambda>a. 1)
          \<lparr>features = [((DATA, ''NDWI''), NdArray \<lparr>shape = [2, 1, 2, 1], items = [2, 0, 2, 2]\<rparr>),
                       ((MASK_TIMELESS, ''NOMINAL_WATER''), NdArray \<lparr>shape = [1, 2, 1], items = [1, 1]\<rparr>)],
           bbox = None, timestamp = []\<rparr> = Inr p'
        \<and> getitem p' (SCALAR, ''WATER_LEVEL'') = Inr (NdArray wl)
        \<and> shape wl = [2, 1] \<and> length (items wl) = 2
        \<and> (\<forall>x \<in> set (items wl). 0 \<le> x \<and> x \<le> 1))"
proof -
  let ?a = "\<lparr>shape = [2, 1, 2, 1], items = [2, 0, 2, 2 :: real]\<rparr>"
  let ?m = "\<lparr>shape = [1, 2, 1], items = [1, 1 :: real]\<rparr>"
  let ?p = "\<lparr>features = [((DATA, ''NDWI''), NdArray ?a), ((MASK_TIMELESS, ''NOMINAL_WATER''), NdArray ?m)],
            bbox = None, timestamp = []\<rparr>"
  have h1: "getitem ?p (DATA, ''NDWI'') = Inr (NdArray ?a)" by (simp add: getitem_def)
  have h2: "shape ?a = [2, 1, 2, 1]" by simp
  have h3: "getitem ?p (MASK_TIMELESS, ''NOMINAL_WATER'') = Inr (NdArray ?m)"
    by (simp add: getitem_def)
  have h4: "shape ?m = [1, 2, 1]" by simp
  have h5: "array_ok ?m" by (simp add: array_ok_def)
  have h6: "(0::nat) < 2 \<and> (0::nat) < 1 \<and> 0 < count_nonzero ?m"
    by (simp add: count_nonzero_def)
  have "\<exists>p' wl. WaterDetector_execute (\<lambda>a. 1) ?p = Inr p'
        \<and> getitem p' (SCALAR, ''WATER_LEVEL'') = Inr (NdArray wl)
        \<and> shape wl = [2, 1] \<and> length (items wl) = 2
        \<and> (\<forall>x \<in> set (items wl). 0 \<le> x \<and> x \<le> 1)"
    using WaterDetector_water_level_in_unit_interval [OF h1 h2 h3 h4 h5, of "\<lambda>a. 1"] h6
    by blast
  then show ?thesis using h5 h6 by simp
qed

end
